theory Spec2Isabelle
  imports Complex_Main "HOL-Library.Multiset"
begin

section \<open>JavaScript values and strings\<close>

text \<open>
  A JavaScript string is a sequence of UTF-16 code units; the model keeps each code unit
  as a natural number (below 65536 in every string the program can hold), so that the
  Japanese labels of the source are ordinary lists. \<open>ascii\<close> embeds an ASCII literal.
\<close>

type_synonym jsstring = "nat list"

definition ascii :: "string \<Rightarrow> jsstring" where
  "ascii s = map of_char s"

abbreviation (input) dq :: nat where "dq \<equiv> 34"
abbreviation (input) comma :: nat where "comma \<equiv> 44"
abbreviation (input) LF :: nat where "LF \<equiv> 10"
abbreviation (input) CR :: nat where "CR \<equiv> 13"

text \<open>
  The characters matched by \<^verbatim>\<open>\s\<close> and removed by \<^verbatim>\<open>String.prototype.trim\<close>: the
  WhiteSpace and LineTerminator code points of ECMAScript. \<^verbatim>\<open>.\<close> matches everything but
  the four line terminators.
\<close>

definition is_space :: "nat \<Rightarrow> bool" where
  "is_space c \<longleftrightarrow>
     (9 \<le> c \<and> c \<le> 13) \<or> c = 32 \<or> c = 160 \<or> c = 5760 \<or> (8192 \<le> c \<and> c \<le> 8202) \<or>
     c = 8232 \<or> c = 8233 \<or> c = 8239 \<or> c = 8287 \<or> c = 12288 \<or> c = 65279"

definition is_line_terminator :: "nat \<Rightarrow> bool" where
  "is_line_terminator c \<longleftrightarrow> c = LF \<or> c = CR \<or> c = 8232 \<or> c = 8233"

definition trim :: "jsstring \<Rightarrow> jsstring" where
  "trim s = rev (dropWhile is_space (rev (dropWhile is_space s)))"

text \<open>\<^verbatim>\<open>Array.prototype.join\<close> on strings.\<close>

fun join :: "jsstring \<Rightarrow> jsstring list \<Rightarrow> jsstring" where
  "join sep [] = []"
| "join sep [x] = x"
| "join sep (x # y # ys) = x @ sep @ join sep (y # ys)"

text \<open>
  Values as the views receive them (\<^verbatim>\<open>any\<close>): the JSON values, \<^verbatim>\<open>undefined\<close> and
  \<^verbatim>\<open>NaN\<close>. A number is its exact rational value; rounding to IEEE doubles and the
  infinities are outside the model. An object is its list of own properties, looked up by
  key.
\<close>

datatype jsval =
    Undefined
  | Null
  | Bool bool
  | Num rat
  | NaN
  | Str jsstring
  | Arr "jsval list"
  | Obj "(jsstring \<times> jsval) list"

datatype js_error =
    TypeError
  | SyntaxError
  | ApiError jsstring nat jsval

text \<open>Truthiness, as tested by \<^verbatim>\<open>!x\<close>, \<^verbatim>\<open>x || y\<close> and \<^verbatim>\<open>x && y\<close>.\<close>

fun truthy :: "jsval \<Rightarrow> bool" where
  "truthy Undefined = False"
| "truthy Null = False"
| "truthy (Bool b) = b"
| "truthy (Num q) = (q \<noteq> 0)"
| "truthy NaN = False"
| "truthy (Str s) = (s \<noteq> [])"
| "truthy (Arr xs) = True"
| "truthy (Obj kvs) = True"

definition js_or :: "jsval \<Rightarrow> jsval \<Rightarrow> jsval" where
  "js_or a b = (if truthy a then a else b)"

text \<open>\<^verbatim>\<open>a ?? b\<close>\<close>

definition nullish :: "jsval \<Rightarrow> bool" where
  "nullish v \<longleftrightarrow> v = Undefined \<or> v = Null"

definition js_coalesce :: "jsval \<Rightarrow> jsval \<Rightarrow> jsval" where
  "js_coalesce a b = (if nullish a then b else a)"

text \<open>
  Reading a property \<^verbatim>\<open>v.k\<close>: a TypeError on \<^verbatim>\<open>null\<close> and \<^verbatim>\<open>undefined\<close>, the own
  property of an object, and \<^verbatim>\<open>undefined\<close> otherwise (the program reads no key that a
  primitive or an array inherits).
\<close>

fun get_prop :: "jsval \<Rightarrow> jsstring \<Rightarrow> js_error + jsval" where
  "get_prop Undefined k = Inl TypeError"
| "get_prop Null k = Inl TypeError"
| "get_prop (Obj kvs) k = (case map_of kvs k of Some v \<Rightarrow> Inr v | None \<Rightarrow> Inr Undefined)"
| "get_prop v k = Inr Undefined"

text \<open>
  The read \<^verbatim>\<open>v?.k\<close>, which cannot throw; it is \<^verbatim>\<open>v.k\<close> whenever that does not throw.
\<close>

definition opt_prop :: "jsval \<Rightarrow> jsstring \<Rightarrow> jsval" where
  "opt_prop v k = (case get_prop v k of Inl e \<Rightarrow> Undefined | Inr x \<Rightarrow> x)"

text \<open>
  \<^verbatim>\<open>Number.prototype.toString\<close> on the exact value: the decimal numeral, with up to 17
  fraction digits. It agrees with the platform on integers below \<open>10\<^sup>2\<^sup>1\<close> and on short
  decimals; the exponent forms are outside the model.
\<close>

function show_nat :: "nat \<Rightarrow> jsstring" where
  "show_nat n = (if n < 10 then [48 + n] else show_nat (n div 10) @ [48 + n mod 10])"
  by pat_completeness auto
termination
  by (relation "measure id") auto

fun frac_digits :: "nat \<Rightarrow> rat \<Rightarrow> jsstring" where
  "frac_digits 0 r = []"
| "frac_digits (Suc k) r =
     (if r = 0 then []
      else (48 + nat \<lfloor>r * 10\<rfloor>) # frac_digits k (r * 10 - of_int \<lfloor>r * 10\<rfloor>))"

definition Number_toString :: "rat \<Rightarrow> jsstring" where
  "Number_toString q =
     (let a = \<bar>q\<bar>; i = \<lfloor>a\<rfloor>; r = a - of_int i in
      (if q < 0 then ascii ''-'' else []) @ show_nat (nat i) @
      (if r = 0 then [] else ascii ''.'' @ frac_digits 17 r))"

text \<open>\<^verbatim>\<open>String(v)\<close>; an array prints its elements joined by commas, with \<^verbatim>\<open>null\<close> and
  \<^verbatim>\<open>undefined\<close> elements empty.\<close>

fun String_js :: "jsval \<Rightarrow> jsstring" where
  "String_js Undefined = ascii ''undefined''"
| "String_js Null = ascii ''null''"
| "String_js (Bool b) = (if b then ascii ''true'' else ascii ''false'')"
| "String_js (Num q) = Number_toString q"
| "String_js NaN = ascii ''NaN''"
| "String_js (Str s) = s"
| "String_js (Arr xs) =
     join [comma] (map (\<lambda>x. if x = Undefined \<or> x = Null then [] else String_js x) xs)"
| "String_js (Obj kvs) = ascii ''[object Object]''"

text \<open>A toast of the widget toolkit: title, description, and the destructive variant.\<close>

datatype toast = Toast jsstring jsstring bool

definition t_error :: jsstring where
  "t_error = [12456, 12521, 12540]"

definition t_success :: jsstring where
  "t_success = [25104, 21151]"

text \<open>
  A computation that can throw is a value of \<open>js_error + 'a\<close>; \<open>bind_e\<close> runs the next
  statement unless the one before has thrown.
\<close>

definition bind_e :: "js_error + 'a \<Rightarrow> ('a \<Rightarrow> js_error + 'b) \<Rightarrow> js_error + 'b" where
  "bind_e m f = (case m of Inl e \<Rightarrow> Inl e | Inr x \<Rightarrow> f x)"

text \<open>
  Callbacks that can throw, run over an array: \<^verbatim>\<open>filter\<close> and \<^verbatim>\<open>map\<close> stop at the first
  element whose callback throws.
\<close>

fun filter_e :: "('a \<Rightarrow> js_error + bool) \<Rightarrow> 'a list \<Rightarrow> js_error + 'a list" where
  "filter_e p [] = Inr []"
| "filter_e p (x # xs) =
     bind_e (p x) (\<lambda>b. bind_e (filter_e p xs) (\<lambda>ys. Inr (if b then x # ys else ys)))"

fun map_e :: "('a \<Rightarrow> js_error + 'b) \<Rightarrow> 'a list \<Rightarrow> js_error + 'b list" where
  "map_e f [] = Inr []"
| "map_e f (x # xs) = bind_e (f x) (\<lambda>y. bind_e (map_e f xs) (\<lambda>ys. Inr (y # ys)))"

text \<open>\<^verbatim>\<open>e.k === 'literal'\<close>: reading the property can throw; only that very string is equal.\<close>

definition prop_is :: "jsstring \<Rightarrow> jsstring \<Rightarrow> jsval \<Rightarrow> js_error + bool" where
  "prop_is k lit e = bind_e (get_prop e k) (\<lambda>v. Inr (v = Str lit))"

section \<open>Research page: \<^verbatim>\<open>handleSearch\<close>\<close>

text \<open>\<^verbatim>\<open>/^[A-Z0-9]{10}$/.test(s)\<close>: ten characters of the class, then the end of the input.\<close>

definition upper_alnum :: "nat \<Rightarrow> bool" where
  "upper_alnum c \<longleftrightarrow> (65 \<le> c \<and> c \<le> 90) \<or> (48 \<le> c \<and> c \<le> 57)"

fun class_times :: "nat \<Rightarrow> jsstring \<Rightarrow> bool" where
  "class_times 0 s = (s = [])"
| "class_times (Suc n) [] = False"
| "class_times (Suc n) (c # cs) = (upper_alnum c \<and> class_times n cs)"

definition asin_regex_test :: "jsstring \<Rightarrow> bool" where
  "asin_regex_test s = class_times 10 s"

definition msg_enter_asin :: jsstring where
  "msg_enter_asin = [65, 83, 73, 78, 12434, 20837, 21147, 12375, 12390, 12367, 12384, 12373, 12356]"

definition msg_valid_asin :: jsstring where
  "msg_valid_asin = [26377, 21177, 12394, 65, 83, 73, 78, 12434, 20837, 21147, 12375, 12390,
     12367, 12384, 12373, 12356, 65288, 49, 48, 25991, 23383, 12398, 33521, 25968, 23383, 65289]"

text \<open>
  What \<^verbatim>\<open>handleSearch\<close> does before it waits for the response: an error toast and an early
  return, or one \<^verbatim>\<open>fetch\<close> whose body is \<^verbatim>\<open>JSON.stringify\<close> of the object kept here.
\<close>

datatype search_step =
    SearchToast toast
  | SearchFetch (url: jsstring) (verb: jsstring) (body: jsval)

definition handleSearch :: "jsstring \<Rightarrow> search_step" where
  "handleSearch asin =
     (if trim asin = [] then SearchToast (Toast t_error msg_enter_asin True)
      else if \<not> asin_regex_test (trim asin) then SearchToast (Toast t_error msg_valid_asin True)
      else SearchFetch (ascii ''/api/compare/us-jp'') (ascii ''POST'')
             (Obj [(ascii ''asin'', Str (trim asin)),
                   (ascii ''us_asin'', Str (trim asin)),
                   (ascii ''exchange_rate'', Num 150)]))"


section \<open>Blacklist page\<close>

record BlacklistEntryItem =
  item_id :: jsval
  item_value :: jsval
  item_reason :: jsval
  item_severity :: jsval
  item_type :: jsval

record BlacklistState =
  asins :: "BlacklistEntryItem list"
  brands :: "BlacklistEntryItem list"
  keywords' :: "BlacklistEntryItem list"

definition toEntry :: "jsval \<Rightarrow> js_error + BlacklistEntryItem" where
  "toEntry entry =
     bind_e (get_prop entry (ascii ''entry_id'')) (\<lambda>i.
     bind_e (get_prop entry (ascii ''value'')) (\<lambda>v.
     bind_e (get_prop entry (ascii ''reason'')) (\<lambda>r.
     bind_e (get_prop entry (ascii ''severity'')) (\<lambda>s.
     bind_e (get_prop entry (ascii ''entry_type'')) (\<lambda>t.
     Inr \<lparr>item_id = i, item_value = v, item_reason = r, item_severity = s,
          item_type = t\<rparr>)))))"

definition is_brand_entry :: "jsval \<Rightarrow> js_error + bool" where
  "is_brand_entry e =
     bind_e (prop_is (ascii ''entry_type'') (ascii ''brand'') e) (\<lambda>b.
       if b then Inr True else prop_is (ascii ''entry_type'') (ascii ''manufacturer'') e)"

definition filter_map_entries ::
  "(jsval \<Rightarrow> js_error + bool) \<Rightarrow> jsval list \<Rightarrow> js_error + BlacklistEntryItem list" where
  "filter_map_entries p entries =
     bind_e (filter_e p entries) (map_e toEntry)"

text \<open>
  The body of the \<^verbatim>\<open>try\<close> block of \<^verbatim>\<open>loadBlacklist\<close>, on the value that
  \<^verbatim>\<open>blacklistApi.getAll()\<close> resolved to: \<open>Inl\<close> when it throws (the \<^verbatim>\<open>catch\<close> block then
  shows a toast and the state is kept), \<open>Inr None\<close> when \<^verbatim>\<open>response.success\<close> is falsy and
  nothing is set, \<open>Inr (Some st)\<close> when \<^verbatim>\<open>setBlacklist(st)\<close> runs. A truthy \<^verbatim>\<open>entries\<close> that
  is not an array has no \<^verbatim>\<open>filter\<close> method.
\<close>

definition loadBlacklist :: "jsval \<Rightarrow> js_error + BlacklistState option" where
  "loadBlacklist response =
     bind_e (get_prop response (ascii ''success'')) (\<lambda>ok.
       if \<not> truthy ok then Inr None
       else bind_e (get_prop response (ascii ''entries'')) (\<lambda>ev.
         (case js_or ev (Arr []) of
            Arr entries \<Rightarrow>
              bind_e (filter_map_entries (prop_is (ascii ''entry_type'') (ascii ''asin'')) entries) (\<lambda>a.
              bind_e (filter_map_entries is_brand_entry entries) (\<lambda>b.
              bind_e (filter_map_entries (prop_is (ascii ''entry_type'') (ascii ''keyword'')) entries) (\<lambda>k.
              Inr (Some \<lparr>asins = a, brands = b, keywords' = k\<rparr>))))
          | _ \<Rightarrow> Inl TypeError)))"

subsection \<open>What the page shows of a response\<close>

text \<open>
  The item an entry is shown as, and the entries of a response (none when \<^verbatim>\<open>entries\<close> is
  missing).
\<close>

definition entry_item :: "jsval \<Rightarrow> BlacklistEntryItem" where
  "entry_item e =
     \<lparr>item_id = opt_prop e (ascii ''entry_id''), item_value = opt_prop e (ascii ''value''),
      item_reason = opt_prop e (ascii ''reason''), item_severity = opt_prop e (ascii ''severity''),
      item_type = opt_prop e (ascii ''entry_type'')\<rparr>"

definition returned_entries :: "jsval \<Rightarrow> jsval list" where
  "returned_entries response =
     (case get_prop response (ascii ''entries'') of Inr (Arr es) \<Rightarrow> es | _ \<Rightarrow> [])"

subsection \<open>Adding entries\<close>

datatype entry_kind = KAsin | KBrand | KKeyword

fun kind_name :: "entry_kind \<Rightarrow> jsstring" where
  "kind_name KAsin = ascii ''asin''"
| "kind_name KBrand = ascii ''brand''"
| "kind_name KKeyword = ascii ''keyword''"

fun defaultReasons :: "entry_kind \<Rightarrow> jsstring" where
  "defaultReasons KAsin = [25163, 21205, 12391, 30331, 37682, 12373, 12428, 12383, 65, 83, 73, 78]"
| "defaultReasons KBrand =
     [25163, 21205, 12391, 30331, 37682, 12373, 12428, 12383, 12502, 12521, 12531, 12489]"
| "defaultReasons KKeyword =
     [25163, 21205, 12391, 30331, 37682, 12373, 12428, 12383, 12461, 12540, 12527, 12540, 12489]"

text \<open>The argument of \<^verbatim>\<open>blacklistApi.create\<close>, sent as a POST to \<^verbatim>\<open>/blacklist\<close>.\<close>

record create_request =
  req_type :: jsstring
  req_value :: jsstring
  req_reason :: jsstring
  req_severity :: jsstring

definition make_request :: "entry_kind \<Rightarrow> jsstring \<Rightarrow> create_request" where
  "make_request kind v =
     \<lparr>req_type = kind_name kind, req_value = v, req_reason = defaultReasons kind,
      req_severity = (if kind = KKeyword then ascii ''medium'' else ascii ''high'')\<rparr>"

text \<open>
  \<^verbatim>\<open>String.prototype.split\<close> with a separator pattern: \<open>sep s\<close> is the length of the
  separator matched at the head of \<open>s\<close>, 0 when there is none.
\<close>

function split_by :: "(jsstring \<Rightarrow> nat) \<Rightarrow> jsstring \<Rightarrow> jsstring list" where
  "split_by sep [] = [[]]"
| "split_by sep (c # cs) =
     (if sep (c # cs) = 0
      then (case split_by sep cs of [] \<Rightarrow> [[c]] | l # ls \<Rightarrow> (c # l) # ls)
      else [] # split_by sep (drop (sep (c # cs) - 1) cs))"
  by pat_completeness auto
termination
  by (relation "measure (\<lambda>(sep, s). length s)") auto

text \<open>\<^verbatim>\<open>/\r?\n/\<close>\<close>

fun sep_newline :: "jsstring \<Rightarrow> nat" where
  "sep_newline (c # d # s) = (if c = CR \<and> d = LF then 2 else if c = LF then 1 else 0)"
| "sep_newline [c] = (if c = LF then 1 else 0)"
| "sep_newline [] = 0"

text \<open>\<^verbatim>\<open>/\r?\n|,|\<close>U+3001\<^verbatim>\<open>/\<close>, the ideographic comma being code unit 12289\<close>

definition sep_keywords :: "jsstring \<Rightarrow> nat" where
  "sep_keywords s =
     (if sep_newline s \<noteq> 0 then sep_newline s
      else (case s of [] \<Rightarrow> 0 | c # _ \<Rightarrow> if c = comma \<or> c = 12289 then 1 else 0))"

definition msg_enter_content :: jsstring where
  "msg_enter_content = [36861, 21152, 12377, 12427, 20869, 23481, 12434, 20837, 21147, 12375,
     12390, 12367, 12384, 12373, 12356]"

definition msg_added_suffix :: jsstring where
  "msg_added_suffix = [20214, 12434, 36861, 21152, 12375, 12414, 12375, 12383]"

definition msg_add_failed :: jsstring where
  "msg_add_failed = [12502, 12521, 12483, 12463, 12522, 12473, 12488, 12398, 36861, 21152, 12395,
     22833, 25943, 12375, 12414, 12375, 12383]"

text \<open>
  The \<^verbatim>\<open>for\<close> loop awaits each \<^verbatim>\<open>blacklistApi.create\<close> in turn inside the \<^verbatim>\<open>try\<close> block:
  a request that throws ends the loop. \<open>api r\<close> tells whether the request \<open>r\<close> resolves.
  The result is the list of requests issued and whether the loop reached its end.
\<close>

fun create_each :: "(create_request \<Rightarrow> bool) \<Rightarrow> create_request list \<Rightarrow> create_request list \<times> bool" where
  "create_each api [] = ([], True)"
| "create_each api (r # rs) =
     (if api r then (case create_each api rs of (sent, done) \<Rightarrow> (r # sent, done))
      else ([r], False))"

record add_outcome =
  issued :: "create_request list"
  toasts :: "toast list"
  input_cleared :: bool
  reloaded :: bool

definition handleAddEntries ::
  "(create_request \<Rightarrow> bool) \<Rightarrow> entry_kind \<Rightarrow> jsstring list \<Rightarrow> add_outcome" where
  "handleAddEntries api kind vals =
     (let cleanedValues = filter (\<lambda>v. length v > 0) (map trim vals) in
      if length cleanedValues = 0
      then \<lparr>issued = [], toasts = [Toast t_error msg_enter_content True],
            input_cleared = False, reloaded = False\<rparr>
      else
       (case create_each api (map (make_request kind) cleanedValues) of
          (sent, True) \<Rightarrow>
            \<lparr>issued = sent,
             toasts = [Toast t_success (show_nat (length cleanedValues) @ msg_added_suffix) False],
             input_cleared = True, reloaded = True\<rparr>
        | (sent, False) \<Rightarrow>
            \<lparr>issued = sent, toasts = [Toast t_error msg_add_failed True],
             input_cleared = False, reloaded = False\<rparr>))"

text \<open>
  \<^verbatim>\<open>String.prototype.toUpperCase\<close> is the platform's Unicode mapping; the handlers take it
  as \<open>toUpperCase\<close>.
\<close>

definition handleAddAsin ::
  "(jsstring \<Rightarrow> jsstring) \<Rightarrow> (create_request \<Rightarrow> bool) \<Rightarrow> jsstring \<Rightarrow> add_outcome" where
  "handleAddAsin toUpperCase api newAsin = handleAddEntries api KAsin [toUpperCase newAsin]"

definition handleAddBrand :: "(create_request \<Rightarrow> bool) \<Rightarrow> jsstring \<Rightarrow> add_outcome" where
  "handleAddBrand api newBrand = handleAddEntries api KBrand [newBrand]"

definition handleAddKeywords :: "(create_request \<Rightarrow> bool) \<Rightarrow> jsstring \<Rightarrow> add_outcome" where
  "handleAddKeywords api newKeyword =
     handleAddEntries api KKeyword (split_by sep_keywords newKeyword)"

text \<open>
  The specification's reading of the keyword box: the text cut at every newline, comma and
  ideographic comma; and the request it describes for a keyword.
\<close>

definition keyword_separator :: "nat \<Rightarrow> bool" where
  "keyword_separator c \<longleftrightarrow> c = LF \<or> c = comma \<or> c = 12289"

fun pieces :: "jsstring \<Rightarrow> jsstring list" where
  "pieces [] = [[]]"
| "pieces (c # cs) =
     (if keyword_separator c then [] # pieces cs
      else (case pieces cs of [] \<Rightarrow> [[c]] | l # ls \<Rightarrow> (c # l) # ls))"

definition keyword_request :: "jsstring \<Rightarrow> create_request" where
  "keyword_request v =
     \<lparr>req_type = ascii ''keyword'', req_value = v,
      req_reason = [25163, 21205, 12391, 30331, 37682, 12373, 12428, 12383, 12461, 12540, 12527,
        12540, 12489],
      req_severity = ascii ''medium''\<rparr>"

section \<open>Dashboard: \<^verbatim>\<open>loadDashboardData\<close>\<close>

text \<open>
  \<^verbatim>\<open>a + b\<close>: objects and arrays become their strings; with a string operand the operands
  are concatenated; otherwise both are converted to numbers and added.

  A number value is held as the exact rational it denotes, and the sum of two doubles is
  the double nearest to their exact sum, which need not be that sum. The addition of two
  numbers is therefore the parameter \<open>fadd\<close>, the platform's \<^verbatim>\<open>+\<close> on two finite doubles; no
  property of it is used. A sum beyond the range of the doubles (\<^verbatim>\<open>Infinity\<close>) has no
  value in \<^typ>\<open>jsval\<close> and is outside the model.
\<close>

fun to_number :: "jsval \<Rightarrow> rat option" where
  "to_number Null = Some 0"
| "to_number (Bool b) = Some (if b then 1 else 0)"
| "to_number (Num q) = Some q"
| "to_number v = None"

fun is_stringy :: "jsval \<Rightarrow> bool" where
  "is_stringy (Str s) = True"
| "is_stringy (Arr xs) = True"
| "is_stringy (Obj kvs) = True"
| "is_stringy v = False"

definition js_add :: "(rat \<Rightarrow> rat \<Rightarrow> rat) \<Rightarrow> jsval \<Rightarrow> jsval \<Rightarrow> jsval" where
  "js_add fadd a b =
     (if is_stringy a \<or> is_stringy b then Str (String_js a @ String_js b)
      else (case (to_number a, to_number b) of
              (Some x, Some y) \<Rightarrow> Num (fadd x y)
            | _ \<Rightarrow> NaN))"

record dashboard_stats =
  activeListings :: nat
  totalRevenue :: jsval
  totalProfit :: jsval
  outOfStock :: nat

text \<open>\<^verbatim>\<open>listings.reduce((sum, l) => sum + (l.k || 0), 0)\<close>, started from \<open>acc\<close>.\<close>

fun reduce_sum ::
  "(rat \<Rightarrow> rat \<Rightarrow> rat) \<Rightarrow> jsstring \<Rightarrow> jsval \<Rightarrow> jsval list \<Rightarrow> js_error + jsval" where
  "reduce_sum fadd k acc [] = Inr acc"
| "reduce_sum fadd k acc (l # ls) =
     bind_e (get_prop l k) (\<lambda>v. reduce_sum fadd k (js_add fadd acc (js_or v (Num 0))) ls)"

text \<open>
  The body of the \<^verbatim>\<open>try\<close> block of \<^verbatim>\<open>loadDashboardData\<close>, on the resolved response:
  \<open>Inl\<close> when it throws, \<open>Inr None\<close> when the condition is falsy and the stats are kept,
  \<open>Inr (Some s)\<close> when \<^verbatim>\<open>setStats(s)\<close> runs. A truthy \<^verbatim>\<open>listings\<close> that is not an array has
  no \<^verbatim>\<open>filter\<close> method.
\<close>

definition loadDashboardData ::
  "(rat \<Rightarrow> rat \<Rightarrow> rat) \<Rightarrow> jsval \<Rightarrow> js_error + dashboard_stats option" where
  "loadDashboardData fadd response =
     bind_e (get_prop response (ascii ''success'')) (\<lambda>ok.
       if \<not> truthy ok then Inr None
       else bind_e (get_prop response (ascii ''listings'')) (\<lambda>lv.
         if \<not> truthy lv then Inr None
         else
          (case lv of
             Arr listings \<Rightarrow>
               bind_e (filter_e (prop_is (ascii ''status'') (ascii ''active'')) listings) (\<lambda>active.
               bind_e (filter_e (prop_is (ascii ''stock_status'') (ascii ''out_of_stock'')) listings) (\<lambda>out.
               bind_e (reduce_sum fadd (ascii ''revenue'') (Num 0) listings) (\<lambda>revenue.
               bind_e (reduce_sum fadd (ascii ''profit'') (Num 0) listings) (\<lambda>profit.
               Inr (Some \<lparr>activeListings = length active, totalRevenue = revenue,
                          totalProfit = profit, outOfStock = length out\<rparr>)))))
           | _ \<Rightarrow> Inl TypeError)))"

subsection \<open>What the cards show of a response\<close>

text \<open>
  The listings of a response, the values a sum is defined on, and the number a field
  counts as.
\<close>

definition returned_listings :: "jsval \<Rightarrow> jsval list" where
  "returned_listings response =
     (case get_prop response (ascii ''listings'') of Inr (Arr ls) \<Rightarrow> ls | _ \<Rightarrow> [])"

fun number_or_missing :: "jsval \<Rightarrow> bool" where
  "number_or_missing (Num q) = True"
| "number_or_missing Undefined = True"
| "number_or_missing Null = True"
| "number_or_missing v = False"

fun number_or_zero :: "jsval \<Rightarrow> rat" where
  "number_or_zero (Num q) = q"
| "number_or_zero v = 0"

section \<open>Products page: export\<close>

text \<open>
  A listing of the page's state, as \<^verbatim>\<open>loadListings\<close> builds it: an object with these nine
  keys, each holding whatever the response held (\<^verbatim>\<open>undefined\<close> when it held nothing).
  \<open>listing_get\<close> is the read \<^verbatim>\<open>listing[key]\<close>.
\<close>

record Listing =
  id' :: jsval
  asin :: jsval
  title :: jsval
  listing_price :: jsval
  profit :: jsval
  status :: jsval
  stock_status :: jsval
  jp_price :: jsval
  us_price :: jsval














section \<open>Products page: import\<close>

subsection \<open>\<^verbatim>\<open>JSON.parse\<close>\<close>

text \<open>
  The platform's parser, for the JSON grammar (ECMA-404): \<open>None\<close> is the SyntaxError. The
  recursion runs on fuel, two units for each character of the text and two more: a value
  or a list of elements or members is entered at most twice per character read. A later
  member replaces an earlier one of the same key.
\<close>

definition json_space :: "nat \<Rightarrow> bool" where
  "json_space c \<longleftrightarrow> c = 32 \<or> c = 9 \<or> c = LF \<or> c = CR"

definition is_digit :: "nat \<Rightarrow> bool" where
  "is_digit c \<longleftrightarrow> 48 \<le> c \<and> c \<le> 57"

definition hex_value :: "nat \<Rightarrow> nat option" where
  "hex_value c =
     (if 48 \<le> c \<and> c \<le> 57 then Some (c - 48)
      else if 97 \<le> c \<and> c \<le> 102 then Some (c - 87)
      else if 65 \<le> c \<and> c \<le> 70 then Some (c - 55)
      else None)"

definition escape_char :: "nat \<Rightarrow> nat option" where
  "escape_char e =
     (if e = dq \<or> e = 92 \<or> e = 47 then Some e
      else if e = 98 then Some 8
      else if e = 102 then Some 12
      else if e = 110 then Some LF
      else if e = 114 then Some CR
      else if e = 116 then Some 9
      else None)"

definition cons_fst :: "'a \<Rightarrow> ('a list \<times> 'b) option \<Rightarrow> ('a list \<times> 'b) option" where
  "cons_fst x r = map_option (\<lambda>(xs, rest). (x # xs, rest)) r"

text \<open>The characters of a string literal after its opening quote, and the rest of the text.\<close>

fun json_string :: "jsstring \<Rightarrow> (jsstring \<times> jsstring) option" where
  "json_string [] = None"
| "json_string (c # cs) =
     (if c = dq then Some ([], cs)
      else if c = 92 then
        (case cs of
           [] \<Rightarrow> None
         | e # es \<Rightarrow>
             if e = 117 then
               (case es of
                  h1 # h2 # h3 # h4 # rest \<Rightarrow>
                    (case (hex_value h1, hex_value h2, hex_value h3, hex_value h4) of
                       (Some a, Some b, Some c', Some d) \<Rightarrow>
                         cons_fst (((a * 16 + b) * 16 + c') * 16 + d) (json_string rest)
                     | _ \<Rightarrow> None)
                | _ \<Rightarrow> None)
             else
               (case escape_char e of
                  None \<Rightarrow> None
                | Some x \<Rightarrow> cons_fst x (json_string es)))
      else if c < 32 then None
      else cons_fst c (json_string cs))"

definition digits_value :: "jsstring \<Rightarrow> nat" where
  "digits_value ds = foldl (\<lambda>a d. 10 * a + (d - 48)) 0 ds"

text \<open>The fraction \<^verbatim>\<open>.ddd\<close> and the exponent \<^verbatim>\<open>e+dd\<close> of a number, both optional.\<close>

definition json_fraction :: "jsstring \<Rightarrow> (jsstring \<times> jsstring) option" where
  "json_fraction s =
     (case s of
        c # cs \<Rightarrow>
          if c = 46
          then (if takeWhile is_digit cs = [] then None
                else Some (takeWhile is_digit cs, dropWhile is_digit cs))
          else Some ([], s)
      | [] \<Rightarrow> Some ([], s))"

definition json_exponent :: "jsstring \<Rightarrow> (int \<times> jsstring) option" where
  "json_exponent s =
     (case s of
        c # cs \<Rightarrow>
          if c = 101 \<or> c = 69
          then
            (let neg = (case cs of d # _ \<Rightarrow> d = 45 | [] \<Rightarrow> False);
                 signed = (case cs of d # _ \<Rightarrow> d = 45 \<or> d = 43 | [] \<Rightarrow> False);
                 ds = (if signed then tl cs else cs)
             in if takeWhile is_digit ds = [] then None
                else Some ((if neg then - 1 else 1) * int (digits_value (takeWhile is_digit ds)),
                           dropWhile is_digit ds))
          else Some (0, s)
      | [] \<Rightarrow> Some (0, s))"

definition json_number :: "jsstring \<Rightarrow> (rat \<times> jsstring) option" where
  "json_number s =
     (let neg = (case s of c # _ \<Rightarrow> c = 45 | [] \<Rightarrow> False);
          s1 = (if neg then tl s else s);
          ds = (case s1 of c # _ \<Rightarrow> if c = 48 then [48] else takeWhile is_digit s1 | [] \<Rightarrow> []);
          s2 = drop (length ds) s1
      in if ds = [] then None
         else
          (case json_fraction s2 of
             None \<Rightarrow> None
           | Some (fs, s3) \<Rightarrow>
              (case json_exponent s3 of
                 None \<Rightarrow> None
               | Some (e, s4) \<Rightarrow>
                  Some ((if neg then - 1 else 1) *
                        (of_nat (digits_value (ds @ fs)) / 10 ^ length fs) *
                        (if 0 \<le> e then 10 ^ nat e else 1 / 10 ^ nat (- e)),
                        s4))))"

text \<open>Assigning \<^verbatim>\<open>o[k] = v\<close> on the list of own properties.\<close>

fun obj_set :: "(jsstring \<times> jsval) list \<Rightarrow> jsstring \<Rightarrow> jsval \<Rightarrow> (jsstring \<times> jsval) list" where
  "obj_set [] k v = [(k, v)]"
| "obj_set ((k', v') # kvs) k v = (if k' = k then (k, v) # kvs else (k', v') # obj_set kvs k v)"

definition obj_of_members :: "(jsstring \<times> jsval) list \<Rightarrow> jsval" where
  "obj_of_members ms = Obj (foldl (\<lambda>kvs (k, v). obj_set kvs k v) [] ms)"

definition skip_space :: "jsstring \<Rightarrow> jsstring" where
  "skip_space s = dropWhile json_space s"

fun json_value :: "nat \<Rightarrow> jsstring \<Rightarrow> (jsval \<times> jsstring) option"
  and json_elements :: "nat \<Rightarrow> jsstring \<Rightarrow> (jsval list \<times> jsstring) option"
  and json_members :: "nat \<Rightarrow> jsstring \<Rightarrow> ((jsstring \<times> jsval) list \<times> jsstring) option"
where
  "json_value 0 s = None"
| "json_value (Suc n) s =
     (case skip_space s of
        [] \<Rightarrow> None
      | c # cs \<Rightarrow>
          if c = 123 then
            (case skip_space cs of
               [] \<Rightarrow> None
             | d # r \<Rightarrow>
                 if d = 125 then Some (Obj [], r)
                 else map_option (\<lambda>(ms, rest). (obj_of_members ms, rest)) (json_members n cs))
          else if c = 91 then
            (case skip_space cs of
               [] \<Rightarrow> None
             | d # r \<Rightarrow>
                 if d = 93 then Some (Arr [], r)
                 else map_option (\<lambda>(xs, rest). (Arr xs, rest)) (json_elements n cs))
          else if c = dq then map_option (\<lambda>(x, rest). (Str x, rest)) (json_string cs)
          else if c = 45 \<or> is_digit c then
            map_option (\<lambda>(q, rest). (Num q, rest)) (json_number (c # cs))
          else if take 4 (c # cs) = ascii ''true'' then Some (Bool True, drop 4 (c # cs))
          else if take 5 (c # cs) = ascii ''false'' then Some (Bool False, drop 5 (c # cs))
          else if take 4 (c # cs) = ascii ''null'' then Some (Null, drop 4 (c # cs))
          else None)"
| "json_elements 0 s = None"
| "json_elements (Suc n) s =
     (case json_value n s of
        None \<Rightarrow> None
      | Some (v, r) \<Rightarrow>
          (case skip_space r of
             [] \<Rightarrow> None
           | d # r' \<Rightarrow>
               if d = comma then cons_fst v (json_elements n r')
               else if d = 93 then Some ([v], r')
               else None))"
| "json_members 0 s = None"
| "json_members (Suc n) s =
     (case skip_space s of
        [] \<Rightarrow> None
      | c # cs \<Rightarrow>
          if c \<noteq> dq then None
          else
           (case json_string cs of
              None \<Rightarrow> None
            | Some (k, r) \<Rightarrow>
               (case skip_space r of
                  [] \<Rightarrow> None
                | d # r1 \<Rightarrow>
                    if d \<noteq> 58 then None
                    else
                     (case json_value n r1 of
                        None \<Rightarrow> None
                      | Some (v, r2) \<Rightarrow>
                         (case skip_space r2 of
                            [] \<Rightarrow> None
                          | d' # r3 \<Rightarrow>
                              if d' = comma then cons_fst (k, v) (json_members n r3)
                              else if d' = 125 then Some ([(k, v)], r3)
                              else None)))))"

definition JSON_parse :: "jsstring \<Rightarrow> js_error + jsval" where
  "JSON_parse text =
     (case json_value (2 * length text + 2) text of
        None \<Rightarrow> Inl SyntaxError
      | Some (v, rest) \<Rightarrow> if skip_space rest = [] then Inr v else Inl SyntaxError)"

subsection \<open>The field pattern\<close>

text \<open>
  \<^verbatim>\<open>(?=\s*,|\s*$)\<close>: after the white space, a comma or the end of the input. (White space is
  never a comma, so giving some of it back changes nothing.)
\<close>

definition lookahead :: "jsstring \<Rightarrow> bool" where
  "lookahead s = (case dropWhile is_space s of [] \<Rightarrow> True | c # _ \<Rightarrow> c = comma)"

text \<open>
  \<^verbatim>\<open>".*?"\<close> after its opening quote, lazily: the closing quote is the first quote that the
  lookahead accepts; until then \<^verbatim>\<open>.\<close> takes one more character, which must not be a line
  terminator. The result is the number of characters taken, the closing quote included.
\<close>

fun quoted :: "jsstring \<Rightarrow> nat option" where
  "quoted [] = None"
| "quoted (c # cs) =
     (if c = dq \<and> lookahead cs then Some 1
      else if is_line_terminator c then None
      else map_option Suc (quoted cs))"

text \<open>
  \<^verbatim>\<open>[^",\s]+\<close>, greedily: the longest run first, then shorter ones, until the lookahead
  accepts.
\<close>

definition plain :: "nat \<Rightarrow> bool" where
  "plain c \<longleftrightarrow> c \<noteq> dq \<and> c \<noteq> comma \<and> \<not> is_space c"

fun backtrack :: "nat \<Rightarrow> jsstring \<Rightarrow> nat option" where
  "backtrack 0 s = None"
| "backtrack (Suc n) s = (if lookahead (drop (Suc n) s) then Some (Suc n) else backtrack n s)"

definition unquoted :: "jsstring \<Rightarrow> nat option" where
  "unquoted s = backtrack (length (takeWhile plain s)) s"

text \<open>The length of the match of \<^verbatim>\<open>(".*?"|[^",\s]+)(?=\s*,|\s*$)\<close> at the head of \<open>s\<close>.\<close>

definition match_at :: "jsstring \<Rightarrow> nat option" where
  "match_at s =
     (case (case s of c # cs \<Rightarrow> if c = dq then map_option Suc (quoted cs) else None | [] \<Rightarrow> None) of
        Some n \<Rightarrow> Some n
      | None \<Rightarrow> unquoted s)"

text \<open>
  The global search: the matches from left to right, each search starting where the match
  before it ended; \<open>k\<close> counts the characters of the last match still to be skipped.
\<close>

fun match_all :: "nat \<Rightarrow> jsstring \<Rightarrow> jsstring list" where
  "match_all k [] = []"
| "match_all (Suc k) (c # cs) = match_all k cs"
| "match_all 0 (c # cs) =
     (case match_at (c # cs) of
        None \<Rightarrow> match_all 0 cs
      | Some n \<Rightarrow> take n (c # cs) # match_all (n - 1) cs)"

text \<open>\<^verbatim>\<open>line.match(/.../g)\<close>: \<^verbatim>\<open>null\<close> when nothing matches.\<close>

definition match_fields :: "jsstring \<Rightarrow> jsstring list option" where
  "match_fields line = (if match_all 0 line = [] then None else Some (match_all 0 line))"

text \<open>\<^verbatim>\<open>s.replace(/^"|"$/g, "")\<close> and \<^verbatim>\<open>s.replace(/""/g, '"')\<close>\<close>

definition strip_quotes :: "jsstring \<Rightarrow> jsstring" where
  "strip_quotes s =
     (let s1 = (case s of c # cs \<Rightarrow> if c = dq then cs else s | [] \<Rightarrow> s)
      in if s1 \<noteq> [] \<and> last s1 = dq then butlast s1 else s1)"

fun undouble_quotes :: "jsstring \<Rightarrow> jsstring" where
  "undouble_quotes (c # d # cs) =
     (if c = dq \<and> d = dq then dq # undouble_quotes cs else c # undouble_quotes (d # cs))"
| "undouble_quotes s = s"

subsection \<open>\<^verbatim>\<open>parseImportedData\<close>\<close>

text \<open>The own entries of \<^verbatim>\<open>headerMappings\<close>.\<close>

definition headerMappings :: "(jsstring \<times> jsstring) list" where
  "headerMappings =
     [(ascii ''asin'', ascii ''asin''),
      (ascii ''ASIN'', ascii ''asin''),
      (ascii ''title'', ascii ''title''),
      ([21830, 21697, 21517], ascii ''title''),
      (ascii ''listing_price'', ascii ''listing_price''),
      (ascii ''listing_pri'', ascii ''listing_price''),
      (ascii ''listing_price (JPY)'', ascii ''listing_price''),
      ([20986, 21697, 20385, 26684], ascii ''listing_price''),
      ([20986, 21697, 20385, 26684] @ ascii '' (JPY)'', ascii ''listing_price''),
      (ascii ''profit'', ascii ''profit''),
      ([21033, 30410], ascii ''profit''),
      (ascii ''status'', ascii ''status''),
      ([12473, 12486, 12540, 12479, 12473], ascii ''status''),
      (ascii ''stock_status'', ascii ''stock_status''),
      (ascii ''stock_stat'', ascii ''stock_status''),
      ([22312, 24235, 12473, 12486, 12540, 12479, 12473], ascii ''stock_status''),
      (ascii ''jp_price'', ascii ''jp_price''),
      ([20181, 20837, 12428, 20385, 26684] @ ascii '' (JPY)'', ascii ''jp_price''),
      (ascii ''us_price'', ascii ''us_price''),
      ([20181, 20837, 12428, 20385, 26684] @ ascii '' (USD)'', ascii ''us_price'')]"

definition sep_comma :: "jsstring \<Rightarrow> nat" where
  "sep_comma s = (case s of c # _ \<Rightarrow> if c = comma then 1 else 0 | [] \<Rightarrow> 0)"

text \<open>
  \<^verbatim>\<open>headerMappings[cleaned] || cleaned\<close>, on the own entries of the table. A header that
  names a member every object inherits (\<^verbatim>\<open>constructor\<close>, \<^verbatim>\<open>toString\<close>, ...) reads that
  member instead, and the key becomes the platform's string of it; such headers are outside
  the model.
\<close>

definition header_name :: "jsstring \<Rightarrow> jsstring" where
  "header_name header =
     (let cleaned = trim (strip_quotes header)
      in case map_of headerMappings cleaned of Some name \<Rightarrow> name | None \<Rightarrow> cleaned)"

text \<open>\<^verbatim>\<open>values[index] ?? ""\<close>: an index past the end reads \<^verbatim>\<open>undefined\<close>.\<close>

definition value_at :: "jsstring list \<Rightarrow> nat \<Rightarrow> jsstring" where
  "value_at vals index = (if index < length vals then vals ! index else [])"

definition make_record :: "jsstring list \<Rightarrow> jsstring list \<Rightarrow> jsval" where
  "make_record headers vals =
     Obj (foldl (\<lambda>record (header, index). obj_set record header (Str (value_at vals index))) []
            (zip headers [0..<length headers]))"

definition line_values :: "jsstring \<Rightarrow> jsstring list" where
  "line_values line =
     (case match_fields line of
        None \<Rightarrow> []
      | Some ms \<Rightarrow> map (\<lambda>v. trim (undouble_quotes (strip_quotes v))) ms)"

fun csv_records :: "jsstring list \<Rightarrow> jsstring list \<Rightarrow> jsval list" where
  "csv_records headers [] = []"
| "csv_records headers (line # rest) =
     (if length (line_values line) = 0 then csv_records headers rest
      else make_record headers (line_values line) # csv_records headers rest)"

text \<open>
  The \<^verbatim>\<open>try\<close> block around \<^verbatim>\<open>JSON.parse\<close>: the value returned from inside it, or \<open>None\<close>
  when the parser throws or the value is neither an array nor of type \<^verbatim>\<open>"object"\<close>, and
  the function goes on to the lines. \<^verbatim>\<open>typeof null\<close> is \<^verbatim>\<open>"object"\<close>.
\<close>

definition parse_as_json :: "jsstring \<Rightarrow> jsval list option" where
  "parse_as_json text =
     (case JSON_parse text of
        Inl e \<Rightarrow> None
      | Inr json \<Rightarrow>
          (case json of
             Arr xs \<Rightarrow> Some xs
           | Obj kvs \<Rightarrow> Some [json]
           | Null \<Rightarrow> Some [json]
           | _ \<Rightarrow> None))"

text \<open>
  \<^verbatim>\<open>lines[0].split(",")\<close> throws on an empty array; the test of \<^verbatim>\<open>lines.length\<close> comes
  first.
\<close>

definition parse_as_csv :: "jsstring \<Rightarrow> js_error + jsval list" where
  "parse_as_csv text =
     (let lines = filter (\<lambda>line. trim line \<noteq> []) (split_by sep_newline text)
      in if length lines = 0 then Inr []
         else
          (case lines of
             [] \<Rightarrow> Inl TypeError
           | first # rest \<Rightarrow>
               Inr (csv_records (map header_name (split_by sep_comma first)) rest)))"

definition parseImportedData :: "jsstring \<Rightarrow> js_error + jsval list" where
  "parseImportedData text =
     (if trim text = [] then Inr []
      else
       (case parse_as_json (trim text) of
          Some records \<Rightarrow> Inr records
        | None \<Rightarrow> parse_as_csv (trim text)))"

section \<open>API client: \<^verbatim>\<open>apiRequest\<close>\<close>

text \<open>
  What \<^verbatim>\<open>fetch\<close> resolved to: the \<^verbatim>\<open>ok\<close> flag, the status code, and the outcome of
  \<^verbatim>\<open>response.json()\<close>, which throws a SyntaxError on a body that is not JSON.
\<close>

record http_response =
  ok :: bool
  resp_status :: nat
  resp_json :: "js_error + jsval"

text \<open>\<^verbatim>\<open>xs.join(sep)\<close> on an array of values.\<close>

definition array_join :: "jsstring \<Rightarrow> jsval list \<Rightarrow> jsstring" where
  "array_join sep xs =
     join sep (map (\<lambda>x. if x = Undefined \<or> x = Null then [] else String_js x) xs)"

text \<open>
  The \<^verbatim>\<open>catch\<close> block logs and rethrows, so what is thrown inside the \<^verbatim>\<open>try\<close> block is
  what \<^verbatim>\<open>apiRequest\<close> throws. The constructor of \<^verbatim>\<open>Error\<close> stores the string of its
  message.
\<close>

definition apiRequest :: "http_response \<Rightarrow> js_error + jsval" where
  "apiRequest response =
     bind_e (resp_json response) (\<lambda>data.
       if \<not> ok response then
         bind_e (get_prop data (ascii ''error'')) (\<lambda>err.
           (let message =
              js_or
                (js_or err
                   (case opt_prop data (ascii ''errors'') of
                      Arr errors \<Rightarrow> Str (array_join (ascii '', '') errors)
                    | _ \<Rightarrow> Undefined))
                (Str (ascii ''HTTP error! status: '' @ show_nat (resp_status response)))
            in Inl (ApiError (String_js message) (resp_status response) data)))
       else Inr data)"




section \<open>Products page: creating listings\<close>

record ListingFormData =
  form_asin :: jsstring
  form_jp_asin :: jsstring
  form_us_asin :: jsstring
  form_title :: jsstring
  form_listing_price :: jsstring
  form_jp_price :: jsstring
  form_us_price :: jsstring
  form_category :: jsstring
  form_manufacturer :: jsstring
  form_source_url :: jsstring
  form_minimum_profit_threshold :: jsstring

definition msg_asin_required :: jsstring where
  "msg_asin_required = [65, 83, 73, 78, 12399, 24517, 38920, 12391, 12377]"

definition msg_title_required :: jsstring where
  "msg_title_required = [21830, 21697, 21517, 12399, 24517, 38920, 12391, 12377]"

definition msg_price_required :: jsstring where
  "msg_price_required = [20986, 21697, 20385, 26684, 12399, 24517, 38920, 12391, 12377]"

text \<open>The \<^verbatim>\<open>errors\<close> object, as the list of its entries in the order they are assigned.\<close>

definition validateForm :: "ListingFormData \<Rightarrow> (jsstring \<times> jsstring) list" where
  "validateForm formData =
     (if trim (form_asin formData) = [] then [(ascii ''asin'', msg_asin_required)] else []) @
     (if trim (form_title formData) = [] then [(ascii ''title'', msg_title_required)] else []) @
     (if trim (form_listing_price formData) = []
      then [(ascii ''listing_price'', msg_price_required)] else [])"

text \<open>The argument of \<^verbatim>\<open>listingsApi.create\<close>.\<close>

record ListingPayload =
  p_asin :: jsval
  p_jp_asin :: jsval
  p_us_asin :: jsval
  p_title :: jsval
  p_listing_price :: jsval
  p_jp_price :: jsval
  p_us_price :: jsval
  p_category :: jsval
  p_manufacturer :: jsval
  p_source_url :: jsval
  p_minimum_profit_threshold :: jsval
  p_validate :: bool

text \<open>
  \<^verbatim>\<open>Number(v)\<close>. The reading of a string as a numeric literal is the platform's and is
  taken as \<open>StringToNumber\<close>; an array or an object is read through its string.
\<close>

definition Number_js :: "(jsstring \<Rightarrow> jsval) \<Rightarrow> jsval \<Rightarrow> jsval" where
  "Number_js StringToNumber v =
     (if is_stringy v then StringToNumber (String_js v)
      else (case to_number v of Some q \<Rightarrow> Num q | None \<Rightarrow> NaN))"

text \<open>
  \<^verbatim>\<open>handleCreateListing\<close> up to its request: the errors it records, or the payload it
  sends.
\<close>

datatype create_step = FormErrors "(jsstring \<times> jsstring) list" | CreateListing ListingPayload

definition handleCreateListing :: "(jsstring \<Rightarrow> jsval) \<Rightarrow> ListingFormData \<Rightarrow> create_step" where
  "handleCreateListing StringToNumber formData =
     (let errors = validateForm formData in
      if length errors > 0 then FormErrors errors
      else CreateListing
        \<lparr>p_asin = Str (trim (form_asin formData)),
         p_jp_asin = js_or (Str (trim (form_jp_asin formData))) (Str (trim (form_asin formData))),
         p_us_asin = js_or (Str (trim (form_us_asin formData))) Undefined,
         p_title = Str (trim (form_title formData)),
         p_listing_price =
           js_or (Number_js StringToNumber (Str (form_listing_price formData))) (Num 0),
         p_jp_price = js_or (Number_js StringToNumber (Str (form_jp_price formData))) (Num 0),
         p_us_price = js_or (Number_js StringToNumber (Str (form_us_price formData))) (Num 0),
         p_category = js_or (Str (trim (form_category formData))) Undefined,
         p_manufacturer = js_or (Str (trim (form_manufacturer formData))) Undefined,
         p_source_url = js_or (Str (trim (form_source_url formData))) Undefined,
         p_minimum_profit_threshold =
           js_or (Number_js StringToNumber (Str (form_minimum_profit_threshold formData)))
             (Num 3000),
         p_validate = True\<rparr>)"

text \<open>
  \<^verbatim>\<open>v?.trim()\<close>: \<^verbatim>\<open>undefined\<close> on \<^verbatim>\<open>null\<close> and \<^verbatim>\<open>undefined\<close>, the trimmed string on a
  string, and a TypeError on any other value, which has no \<^verbatim>\<open>trim\<close> method.
\<close>

fun opt_trim :: "jsval \<Rightarrow> js_error + jsval" where
  "opt_trim Undefined = Inr Undefined"
| "opt_trim Null = Inr Undefined"
| "opt_trim (Str s) = Inr (Str (trim s))"
| "opt_trim v = Inl TypeError"

text \<open>\<^verbatim>\<open>record.k?.trim()\<close> and \<^verbatim>\<open>record.k ?? record.k2\<close>\<close>

definition trimmed_prop :: "jsval \<Rightarrow> jsstring \<Rightarrow> js_error + jsval" where
  "trimmed_prop record k = bind_e (get_prop record k) opt_trim"

definition prop_or :: "jsval \<Rightarrow> jsstring \<Rightarrow> jsstring \<Rightarrow> js_error + jsval" where
  "prop_or record k k2 =
     bind_e (get_prop record k) (\<lambda>v.
       if nullish v then get_prop record k2 else Inr v)"

text \<open>
  \<^verbatim>\<open>createPayload\<close> of \<^verbatim>\<open>handleImportFile\<close>: \<open>Inr None\<close> is the \<^verbatim>\<open>null\<close> it returns,
  \<open>Inl\<close> what it throws. The local constants \<^verbatim>\<open>asin\<close> and \<^verbatim>\<open>title\<close> are \<open>a\<close> and \<open>t\<close>;
  \<open>payload_object\<close> is the object literal of the final \<^verbatim>\<open>return\<close>, its properties
  evaluated in order.
\<close>

definition payload_object ::
  "(jsstring \<Rightarrow> jsval) \<Rightarrow> jsval \<Rightarrow> jsval \<Rightarrow> jsval \<Rightarrow> jsval \<Rightarrow> js_error + ListingPayload option" where
  "payload_object StringToNumber record a t listingPrice =
     bind_e (trimmed_prop record (ascii ''jp_asin'')) (\<lambda>jp_asin.
     bind_e (trimmed_prop record (ascii ''us_asin'')) (\<lambda>us_asin.
     bind_e (prop_or record (ascii ''jp_price'') (ascii ''jpPrice'')) (\<lambda>jp.
     bind_e (prop_or record (ascii ''us_price'') (ascii ''usPrice'')) (\<lambda>us.
     bind_e (trimmed_prop record (ascii ''category'')) (\<lambda>category.
     bind_e (trimmed_prop record (ascii ''manufacturer'')) (\<lambda>manufacturer.
     bind_e (trimmed_prop record (ascii ''source_url'')) (\<lambda>source_url.
     bind_e (if truthy source_url then Inr source_url
             else trimmed_prop record (ascii ''sourceUrl'')) (\<lambda>source.
     bind_e (prop_or record (ascii ''minimum_profit_threshold'')
               (ascii ''minimumProfitThreshold'')) (\<lambda>threshold.
       Inr (Some
         \<lparr>p_asin = a,
          p_jp_asin = js_or jp_asin a,
          p_us_asin = js_or us_asin Undefined,
          p_title = t,
          p_listing_price = js_or (Number_js StringToNumber listingPrice) (Num 0),
          p_jp_price = js_or (Number_js StringToNumber jp) (Num 0),
          p_us_price = js_or (Number_js StringToNumber us) (Num 0),
          p_category = js_or category Undefined,
          p_manufacturer = js_or manufacturer Undefined,
          p_source_url = js_or source Undefined,
          p_minimum_profit_threshold = js_or (Number_js StringToNumber threshold) (Num 3000),
          p_validate = True\<rparr>))))))))))"

definition createPayload :: "(jsstring \<Rightarrow> jsval) \<Rightarrow> jsval \<Rightarrow> js_error + ListingPayload option" where
  "createPayload StringToNumber record =
     bind_e (trimmed_prop record (ascii ''asin'')) (\<lambda>a.
     bind_e (trimmed_prop record (ascii ''title'')) (\<lambda>t.
     bind_e (prop_or record (ascii ''listing_price'') (ascii ''listingPrice'')) (\<lambda>listingPrice.
       if \<not> truthy a \<or> \<not> truthy t \<or> (\<not> truthy listingPrice \<and> listingPrice \<noteq> Num 0)
       then Inr None
       else payload_object StringToNumber record a t listingPrice)))"

text \<open>
  The create requests of \<^verbatim>\<open>handleImportFile\<close> for the text of a file: one for each record
  whose payload is not \<^verbatim>\<open>null\<close>, all sent together; none when \<^verbatim>\<open>createPayload\<close> throws on
  some record, which the \<^verbatim>\<open>catch\<close> block answers with a toast.
\<close>

definition import_requests :: "(jsstring \<Rightarrow> jsval) \<Rightarrow> jsstring \<Rightarrow> ListingPayload list" where
  "import_requests StringToNumber text =
     (case bind_e (parseImportedData text) (map_e (createPayload StringToNumber)) of
        Inl e \<Rightarrow> []
      | Inr payloads \<Rightarrow> concat (map (\<lambda>p. case p of None \<Rightarrow> [] | Some x \<Rightarrow> [x]) payloads))"

text \<open>
  A field of a record that is a non-empty text after trimming, and the listing price of a
  record: \<^verbatim>\<open>listing_price\<close>, or \<^verbatim>\<open>listingPrice\<close> when that is missing.
\<close>

fun filled :: "jsval \<Rightarrow> bool" where
  "filled (Str s) = (trim s \<noteq> [])"
| "filled v = False"

fun text_or_missing :: "jsval \<Rightarrow> bool" where
  "text_or_missing (Str s) = True"
| "text_or_missing Undefined = True"
| "text_or_missing Null = True"
| "text_or_missing v = False"

definition record_price :: "jsval \<Rightarrow> jsval" where
  "record_price record =
     js_coalesce (opt_prop record (ascii ''listing_price'')) (opt_prop record (ascii ''listingPrice''))"







section \<open>Theorems\<close>

subsection \<open>Research\<close>

lemma ascii_eq_iff [simp]: "ascii s = ascii t \<longleftrightarrow> s = t"
proof -
  have "inj (of_char :: char \<Rightarrow> nat)"
    by (rule injI) (metis char_of_char)
  then show ?thesis unfolding ascii_def by (simp add: inj_map_eq_map)
qed

lemma ascii_eq_Nil [simp]: "ascii s = [] \<longleftrightarrow> s = []"
  by (simp add: ascii_def)

lemma class_times_iff: "class_times n s \<longleftrightarrow> length s = n \<and> (\<forall>c\<in>set s. upper_alnum c)"
  by (induction n s rule: class_times.induct) auto

text \<open>
  C5. \<^verbatim>\<open>handleSearch\<close> sends the POST to \<^verbatim>\<open>/api/compare/us-jp\<close> exactly when the trimmed
  input is ten characters, each an uppercase letter or a digit; every other input (the
  empty and the whitespace-only one too) gets a destructive error toast and no request; the
  body of a request carries \<^verbatim>\<open>asin\<close> and \<^verbatim>\<open>us_asin\<close> equal to the trimmed input and
  \<^verbatim>\<open>exchange_rate\<close> 150.
\<close>

theorem C5_handleSearch:
  "handleSearch input =
     (if length (trim input) = 10 \<and> list_all (\<lambda>c. c \<in> {65..90} \<union> {48..57}) (trim input)
      then SearchFetch (ascii ''/api/compare/us-jp'') (ascii ''POST'')
             (Obj [(ascii ''asin'', Str (trim input)), (ascii ''us_asin'', Str (trim input)),
                   (ascii ''exchange_rate'', Num 150)])
      else SearchToast (Toast t_error
             (if trim input = [] then msg_enter_asin else msg_valid_asin) True))"
proof -
  have "asin_regex_test (trim input) \<longleftrightarrow>
        length (trim input) = 10 \<and> list_all (\<lambda>c. c \<in> {65..90} \<union> {48..57}) (trim input)"
    by (auto simp: asin_regex_test_def class_times_iff upper_alnum_def list_all_iff)
  then show ?thesis
    by (auto simp: handleSearch_def)
qed

subsection \<open>Blacklist\<close>

lemma bind_e_Inr_iff: "bind_e m f = Inr y \<longleftrightarrow> (\<exists>x. m = Inr x \<and> f x = Inr y)"
  by (cases m) (auto simp: bind_e_def)

lemma filter_e_Inr:
  "filter_e p xs = Inr ys \<Longrightarrow> ys = filter (\<lambda>x. p x = Inr True) xs \<and> (\<forall>x\<in>set xs. \<exists>b. p x = Inr b)"
  by (induction xs arbitrary: ys) (auto simp: bind_e_Inr_iff)

lemma map_e_Inr:
  "map_e f xs = Inr ys \<Longrightarrow> list_all2 (\<lambda>x y. f x = Inr y) xs ys"
  by (induction xs arbitrary: ys) (auto simp: bind_e_Inr_iff)

lemma prop_is_eq: "prop_is k lit e = (case get_prop e k of Inl err \<Rightarrow> Inl err | Inr v \<Rightarrow> Inr (v = Str lit))"
  by (simp add: prop_is_def bind_e_def)

lemma is_brand_entry_eq:
  "is_brand_entry e =
     (case get_prop e (ascii ''entry_type'') of
        Inl err \<Rightarrow> Inl err
      | Inr v \<Rightarrow> Inr (v = Str (ascii ''brand'') \<or> v = Str (ascii ''manufacturer'')))"
  by (cases "get_prop e (ascii ''entry_type'')") (simp_all add: is_brand_entry_def prop_is_eq bind_e_def)

lemma bind_e_InrE:
  assumes "bind_e m f = Inr y"
  obtains x where "m = Inr x" "f x = Inr y"
  using assms by (cases m) (auto simp: bind_e_def)

lemma get_prop_opt: "\<not> nullish v \<Longrightarrow> get_prop v k = Inr (opt_prop v k)"
  by (cases v) (simp_all add: nullish_def opt_prop_def split: option.splits)

lemma get_prop_Inr: "get_prop v k = Inr x \<Longrightarrow> \<not> nullish v \<and> opt_prop v k = x"
  by (cases v) (simp_all add: nullish_def opt_prop_def)

lemma truthy_opt_prop: "truthy (opt_prop v k) \<Longrightarrow> \<not> nullish v"
  by (cases v) (simp_all add: nullish_def opt_prop_def)

lemma filter_e_not_nullish:
  assumes "filter_e (prop_is k lit) xs = Inr ys"
  shows "\<forall>x\<in>set xs. \<not> nullish x"
proof
  fix x assume "x \<in> set xs"
  with filter_e_Inr [OF assms] obtain b where "prop_is k lit x = Inr b" by blast
  then show "\<not> nullish x"
    by (cases "get_prop x k") (auto simp: prop_is_eq dest: get_prop_Inr)
qed

lemma filter_e_prop_is:
  "\<forall>e\<in>set es. \<not> nullish e \<Longrightarrow>
   filter_e (prop_is k lit) es = Inr (filter (\<lambda>e. opt_prop e k = Str lit) es)"
  by (induction es) (simp_all add: prop_is_eq get_prop_opt bind_e_def)

lemma filter_e_is_brand:
  "\<forall>e\<in>set es. \<not> nullish e \<Longrightarrow>
   filter_e is_brand_entry es =
     Inr (filter (\<lambda>e. opt_prop e (ascii ''entry_type'') = Str (ascii ''brand'') \<or>
                      opt_prop e (ascii ''entry_type'') = Str (ascii ''manufacturer'')) es)"
  by (induction es) (simp_all add: is_brand_entry_eq get_prop_opt bind_e_def)

lemma map_e_toEntry_total:
  "\<forall>e\<in>set es. \<not> nullish e \<Longrightarrow> map_e toEntry es = Inr (map entry_item es)"
  by (induction es) (simp_all add: toEntry_def entry_item_def get_prop_opt bind_e_def)

lemma filter_map_entries_total:
  assumes "\<forall>e\<in>set es. \<not> nullish e" and "filter_e p es = Inr (filter q es)"
  shows "filter_map_entries p es = Inr (map entry_item (filter q es))"
  unfolding filter_map_entries_def assms(2) using assms(1)
  by (simp add: map_e_toEntry_total bind_e_def)

lemma loadBlacklist_sets:
  assumes s: "truthy (opt_prop response (ascii ''success''))"
    and e: "opt_prop response (ascii ''entries'') = Arr es \<or>
            \<not> truthy (opt_prop response (ascii ''entries'')) \<and> es = []"
    and n: "\<forall>e\<in>set es. \<not> nullish e"
  shows "loadBlacklist response = Inr (Some
     \<lparr>asins = map entry_item (filter (\<lambda>e. opt_prop e (ascii ''entry_type'') = Str (ascii ''asin'')) es),
      brands = map entry_item
        (filter (\<lambda>e. opt_prop e (ascii ''entry_type'') = Str (ascii ''brand'') \<or>
                     opt_prop e (ascii ''entry_type'') = Str (ascii ''manufacturer'')) es),
      keywords' = map entry_item
        (filter (\<lambda>e. opt_prop e (ascii ''entry_type'') = Str (ascii ''keyword'')) es)\<rparr>)"
proof -
  from s have r: "\<not> nullish response" by (rule truthy_opt_prop)
  from e have j: "js_or (opt_prop response (ascii ''entries'')) (Arr []) = Arr es"
    by (auto simp: js_or_def)
  show ?thesis
    unfolding loadBlacklist_def get_prop_opt [OF r]
    using s j n
    by (simp add: filter_map_entries_total filter_e_prop_is filter_e_is_brand bind_e_def)
qed

lemma loadBlacklist_set_only:
  assumes "loadBlacklist response = Inr (Some st)"
  shows "truthy (opt_prop response (ascii ''success'')) \<and>
     (opt_prop response (ascii ''entries'') = Arr (returned_entries response) \<or>
      \<not> truthy (opt_prop response (ascii ''entries'')) \<and> returned_entries response = []) \<and>
     (\<forall>e\<in>set (returned_entries response). \<not> nullish e)"
proof -
  from assms obtain ok where ok: "get_prop response (ascii ''success'') = Inr ok"
    and r1: "(if \<not> truthy ok then Inr None
       else bind_e (get_prop response (ascii ''entries'')) (\<lambda>ev.
         (case js_or ev (Arr []) of
            Arr entries \<Rightarrow>
              bind_e (filter_map_entries (prop_is (ascii ''entry_type'') (ascii ''asin'')) entries) (\<lambda>a.
              bind_e (filter_map_entries is_brand_entry entries) (\<lambda>b.
              bind_e (filter_map_entries (prop_is (ascii ''entry_type'') (ascii ''keyword'')) entries) (\<lambda>k.
              Inr (Some \<lparr>asins = a, brands = b, keywords' = k\<rparr>))))
          | _ \<Rightarrow> Inl TypeError))) = Inr (Some st)"
    unfolding loadBlacklist_def by (rule bind_e_InrE)
  from r1 have t: "truthy ok" by (cases "truthy ok") simp_all
  with ok have 1: "truthy (opt_prop response (ascii ''success''))"
    by (simp add: opt_prop_def)
  from t r1 obtain ev where ev: "get_prop response (ascii ''entries'') = Inr ev"
    and r2: "(case js_or ev (Arr []) of
            Arr entries \<Rightarrow>
              bind_e (filter_map_entries (prop_is (ascii ''entry_type'') (ascii ''asin'')) entries) (\<lambda>a.
              bind_e (filter_map_entries is_brand_entry entries) (\<lambda>b.
              bind_e (filter_map_entries (prop_is (ascii ''entry_type'') (ascii ''keyword'')) entries) (\<lambda>k.
              Inr (Some \<lparr>asins = a, brands = b, keywords' = k\<rparr>))))
          | _ \<Rightarrow> Inl TypeError) = Inr (Some st)"
    by simp (erule bind_e_InrE)
  from r2 obtain es where es: "js_or ev (Arr []) = Arr es"
    by (cases "js_or ev (Arr [])") simp_all
  have o: "opt_prop response (ascii ''entries'') = ev"
    using ev by (simp add: opt_prop_def)
  have 2: "opt_prop response (ascii ''entries'') = Arr (returned_entries response) \<or>
      \<not> truthy (opt_prop response (ascii ''entries'')) \<and> returned_entries response = []"
    unfolding o using es ev
    by (cases ev) (simp_all add: returned_entries_def js_or_def split: if_splits)
  have "es = returned_entries response"
    using es ev by (cases ev) (simp_all add: returned_entries_def js_or_def split: if_splits)
  with r2 es obtain a where
    "filter_map_entries (prop_is (ascii ''entry_type'') (ascii ''asin'')) (returned_entries response) = Inr a"
    by simp (erule bind_e_InrE)
  then obtain ys where
    "filter_e (prop_is (ascii ''entry_type'') (ascii ''asin'')) (returned_entries response) = Inr ys"
    unfolding filter_map_entries_def by (rule bind_e_InrE)
  then have 3: "\<forall>e\<in>set (returned_entries response). \<not> nullish e"
    by (rule filter_e_not_nullish)
  from 1 2 3 show ?thesis by blast
qed

text \<open>
  C7. \<^verbatim>\<open>loadBlacklist\<close> sets the state exactly when the response has a truthy \<^verbatim>\<open>success\<close>,
  its \<^verbatim>\<open>entries\<close> is an array or falsy (then there are no entries), and no entry is \<^verbatim>\<open>null\<close>
  or \<^verbatim>\<open>undefined\<close>. The state it sets has as \<open>asins\<close> the entries of type \<^verbatim>\<open>asin\<close>, as
  \<open>brands\<close> those of type \<^verbatim>\<open>brand\<close> or \<^verbatim>\<open>manufacturer\<close>, as \<open>keywords\<close> those of type
  \<^verbatim>\<open>keyword\<close>, in the order of the response and each as the item
  \<open>{id, value, reason, severity, type}\<close> read from \<^verbatim>\<open>entry_id\<close>, \<^verbatim>\<open>value\<close>, \<^verbatim>\<open>reason\<close>,
  \<^verbatim>\<open>severity\<close>, \<^verbatim>\<open>entry_type\<close>; an entry of another type is in none of the three lists.
\<close>

theorem C7_loadBlacklist:
  "(loadBlacklist response = Inr (Some st) \<longleftrightarrow>
      truthy (opt_prop response (ascii ''success'')) \<and>
      ((\<exists>es. opt_prop response (ascii ''entries'') = Arr es) \<or>
       \<not> truthy (opt_prop response (ascii ''entries''))) \<and>
      (\<forall>e \<in> set (returned_entries response). \<not> nullish e) \<and>
      asins st = map entry_item
           (filter (\<lambda>e. opt_prop e (ascii ''entry_type'') = Str (ascii ''asin''))
              (returned_entries response)) \<and>
      brands st = map entry_item
           (filter (\<lambda>e. opt_prop e (ascii ''entry_type'') = Str (ascii ''brand'') \<or>
                        opt_prop e (ascii ''entry_type'') = Str (ascii ''manufacturer''))
              (returned_entries response)) \<and>
      keywords' st = map entry_item
           (filter (\<lambda>e. opt_prop e (ascii ''entry_type'') = Str (ascii ''keyword''))
              (returned_entries response))) \<and>
   (loadBlacklist response = Inr (Some st) \<longrightarrow>
      (\<forall>e \<in> set (returned_entries response).
         opt_prop e (ascii ''entry_type'') \<notin>
           Str ` {ascii ''asin'', ascii ''brand'', ascii ''manufacturer'', ascii ''keyword''}
         \<longrightarrow> entry_item e \<notin> set (asins st) \<union> set (brands st) \<union> set (keywords' st)))"
  (is "(?set \<longleftrightarrow> ?ok \<and> ?arr \<and> ?nn \<and> ?a \<and> ?b \<and> ?k) \<and> (?set \<longrightarrow> ?none)")
proof -
  have sets: "loadBlacklist response = Inr (Some
     \<lparr>asins = map entry_item (filter (\<lambda>e. opt_prop e (ascii ''entry_type'') = Str (ascii ''asin''))
        (returned_entries response)),
      brands = map entry_item
        (filter (\<lambda>e. opt_prop e (ascii ''entry_type'') = Str (ascii ''brand'') \<or>
                     opt_prop e (ascii ''entry_type'') = Str (ascii ''manufacturer''))
          (returned_entries response)),
      keywords' = map entry_item
        (filter (\<lambda>e. opt_prop e (ascii ''entry_type'') = Str (ascii ''keyword''))
          (returned_entries response))\<rparr>)"
    if ok: ?ok and arr: ?arr and nn: ?nn
  proof (rule loadBlacklist_sets [OF ok _ nn])
    from ok have "\<not> nullish response" by (rule truthy_opt_prop)
    then have g: "get_prop response (ascii ''entries'') = Inr (opt_prop response (ascii ''entries''))"
      by (rule get_prop_opt)
    from arr show "opt_prop response (ascii ''entries'') = Arr (returned_entries response) \<or>
        \<not> truthy (opt_prop response (ascii ''entries'')) \<and> returned_entries response = []"
    proof
      assume "\<exists>es. opt_prop response (ascii ''entries'') = Arr es"
      then show ?thesis by (auto simp: returned_entries_def g)
    next
      assume f: "\<not> truthy (opt_prop response (ascii ''entries''))"
      then have "returned_entries response = []"
        by (cases "opt_prop response (ascii ''entries'')") (simp_all add: returned_entries_def g)
      with f show ?thesis by simp
    qed
  qed
  have 1: "?ok \<and> ?arr \<and> ?nn \<and> ?a \<and> ?b \<and> ?k" if s: ?set
  proof -
    from loadBlacklist_set_only [OF s] have ok: ?ok and arr: ?arr and nn: ?nn by auto
    from sets [OF ok arr nn] s have ?a ?b ?k by simp_all
    with ok arr nn show ?thesis by blast
  qed
  have 2: ?set if ok: ?ok and arr: ?arr and nn: ?nn and a: ?a and b: ?b and k: ?k
    using sets [OF ok arr nn] a b k by (cases st) simp
  have 3: ?none if s: ?set
  proof (intro ballI impI)
    fix e
    assume e: "e \<in> set (returned_entries response)"
      and other: "opt_prop e (ascii ''entry_type'') \<notin>
           Str ` {ascii ''asin'', ascii ''brand'', ascii ''manufacturer'', ascii ''keyword''}"
    from 1 [OF s] have a: ?a and b: ?b and k: ?k by auto
    have ty: "item_type (entry_item x) = opt_prop x (ascii ''entry_type'')" for x
      by (simp add: entry_item_def)
    show "entry_item e \<notin> set (asins st) \<union> set (brands st) \<union> set (keywords' st)"
    proof
      assume "entry_item e \<in> set (asins st) \<union> set (brands st) \<union> set (keywords' st)"
      then obtain e' where "entry_item e = entry_item e'"
        and "opt_prop e' (ascii ''entry_type'') \<in>
           Str ` {ascii ''asin'', ascii ''brand'', ascii ''manufacturer'', ascii ''keyword''}"
        unfolding a b k by auto
      with ty [of e] ty [of e'] other show False by simp
    qed
  qed
  from 1 2 3 show ?thesis by blast
qed

theorem C7_loadBlacklist_witness:
  "loadBlacklist
     (Obj [(ascii ''success'', Bool True),
           (ascii ''entries'', Arr [
              Obj [(ascii ''entry_id'', Str (ascii ''1'')), (ascii ''entry_type'', Str (ascii ''asin'')),
                   (ascii ''value'', Str (ascii ''B000000001''))],
              Obj [(ascii ''entry_id'', Str (ascii ''2'')), (ascii ''entry_type'', Str (ascii ''manufacturer'')),
                   (ascii ''value'', Str (ascii ''Acme''))],
              Obj [(ascii ''entry_id'', Str (ascii ''3'')), (ascii ''entry_type'', Str (ascii ''category'')),
                   (ascii ''value'', Str (ascii ''toys''))]])]) =
   Inr (Some
     \<lparr>asins = [\<lparr>item_id = Str (ascii ''1''), item_value = Str (ascii ''B000000001''),
                 item_reason = Undefined, item_severity = Undefined,
                 item_type = Str (ascii ''asin'')\<rparr>],
      brands = [\<lparr>item_id = Str (ascii ''2''), item_value = Str (ascii ''Acme''),
                  item_reason = Undefined, item_severity = Undefined,
                  item_type = Str (ascii ''manufacturer'')\<rparr>],
      keywords' = []\<rparr>) \<and>
   entry_item (Obj [(ascii ''entry_id'', Str (ascii ''3'')), (ascii ''entry_type'', Str (ascii ''category'')),
                    (ascii ''value'', Str (ascii ''toys''))]) \<notin>
     {\<lparr>item_id = Str (ascii ''1''), item_value = Str (ascii ''B000000001''),
       item_reason = Undefined, item_severity = Undefined, item_type = Str (ascii ''asin'')\<rparr>,
      \<lparr>item_id = Str (ascii ''2''), item_value = Str (ascii ''Acme''),
       item_reason = Undefined, item_severity = Undefined,
       item_type = Str (ascii ''manufacturer'')\<rparr>}"
  (is "loadBlacklist ?r = Inr (Some ?st) \<and> _")
proof -
  have es: "returned_entries ?r = [
              Obj [(ascii ''entry_id'', Str (ascii ''1'')), (ascii ''entry_type'', Str (ascii ''asin'')),
                   (ascii ''value'', Str (ascii ''B000000001''))],
              Obj [(ascii ''entry_id'', Str (ascii ''2'')), (ascii ''entry_type'', Str (ascii ''manufacturer'')),
                   (ascii ''value'', Str (ascii ''Acme''))],
              Obj [(ascii ''entry_id'', Str (ascii ''3'')), (ascii ''entry_type'', Str (ascii ''category'')),
                   (ascii ''value'', Str (ascii ''toys''))]]"
    by (simp add: returned_entries_def)
  from C7_loadBlacklist [of ?r ?st] show ?thesis
    unfolding es by (simp add: entry_item_def opt_prop_def nullish_def)
qed

subsection \<open>Dashboard\<close>

lemma js_add_number:
  "number_or_missing v \<Longrightarrow>
   js_add fadd (Num a) (js_or v (Num 0)) = Num (fadd a (number_or_zero v))"
  by (cases v) (simp_all add: js_add_def js_or_def)

lemma reduce_sum_numbers:
  "\<forall>l\<in>set ls. \<not> nullish l \<and> number_or_missing (opt_prop l k) \<Longrightarrow>
   reduce_sum fadd k (Num a) ls =
     Inr (Num (foldl fadd a (map (\<lambda>l. number_or_zero (opt_prop l k)) ls)))"
  by (induction ls arbitrary: a) (simp_all add: get_prop_opt js_add_number bind_e_def)

lemma foldl_plus_sum_list: "foldl (+) a xs = a + sum_list xs" for a :: rat
  by (induction xs arbitrary: a) (simp_all add: add.assoc)

lemma reduce_sum_exact:
  "\<forall>l\<in>set ls. \<not> nullish l \<and> number_or_missing (opt_prop l k) \<Longrightarrow>
   reduce_sum (+) k (Num 0) ls = Inr (Num (\<Sum>l\<leftarrow>ls. number_or_zero (opt_prop l k)))"
  by (simp add: reduce_sum_numbers foldl_plus_sum_list)

lemma loadDashboardData_sets:
  assumes s: "truthy (opt_prop response (ascii ''success''))"
    and l: "opt_prop response (ascii ''listings'') = Arr ls"
    and n: "\<forall>l\<in>set ls. \<not> nullish l"
    and r: "\<forall>l\<in>set ls. number_or_missing (opt_prop l (ascii ''revenue''))"
    and p: "\<forall>l\<in>set ls. number_or_missing (opt_prop l (ascii ''profit''))"
  shows "loadDashboardData fadd response = Inr (Some
     \<lparr>activeListings =
        length (filter (\<lambda>l. opt_prop l (ascii ''status'') = Str (ascii ''active'')) ls),
      totalRevenue =
        Num (foldl fadd 0 (map (\<lambda>l. number_or_zero (opt_prop l (ascii ''revenue''))) ls)),
      totalProfit =
        Num (foldl fadd 0 (map (\<lambda>l. number_or_zero (opt_prop l (ascii ''profit''))) ls)),
      outOfStock =
        length (filter (\<lambda>l. opt_prop l (ascii ''stock_status'') = Str (ascii ''out_of_stock'')) ls)\<rparr>)"
proof -
  from s have nr: "\<not> nullish response" by (rule truthy_opt_prop)
  have rs: "reduce_sum fadd (ascii ''revenue'') (Num 0) ls =
      Inr (Num (foldl fadd 0 (map (\<lambda>l. number_or_zero (opt_prop l (ascii ''revenue''))) ls)))"
    using n r by (intro reduce_sum_numbers) blast
  have ps: "reduce_sum fadd (ascii ''profit'') (Num 0) ls =
      Inr (Num (foldl fadd 0 (map (\<lambda>l. number_or_zero (opt_prop l (ascii ''profit''))) ls)))"
    using n p by (intro reduce_sum_numbers) blast
  show ?thesis
    unfolding loadDashboardData_def get_prop_opt [OF nr] l
    using s by (simp add: filter_e_prop_is [OF n] rs ps bind_e_def)
qed

lemma loadDashboardData_set_only:
  assumes "loadDashboardData fadd response = Inr (Some s)"
  shows "truthy (opt_prop response (ascii ''success'')) \<and>
     opt_prop response (ascii ''listings'') = Arr (returned_listings response) \<and>
     (\<forall>l\<in>set (returned_listings response). \<not> nullish l)"
proof -
  from assms obtain ok where ok: "get_prop response (ascii ''success'') = Inr ok"
    and r1: "(if \<not> truthy ok then Inr None
       else bind_e (get_prop response (ascii ''listings'')) (\<lambda>lv.
         if \<not> truthy lv then Inr None
         else
          (case lv of
             Arr listings \<Rightarrow>
               bind_e (filter_e (prop_is (ascii ''status'') (ascii ''active'')) listings) (\<lambda>active.
               bind_e (filter_e (prop_is (ascii ''stock_status'') (ascii ''out_of_stock'')) listings) (\<lambda>out.
               bind_e (reduce_sum fadd (ascii ''revenue'') (Num 0) listings) (\<lambda>revenue.
               bind_e (reduce_sum fadd (ascii ''profit'') (Num 0) listings) (\<lambda>profit.
               Inr (Some \<lparr>activeListings = length active, totalRevenue = revenue,
                          totalProfit = profit, outOfStock = length out\<rparr>)))))
           | _ \<Rightarrow> Inl TypeError))) = Inr (Some s)"
    unfolding loadDashboardData_def by (rule bind_e_InrE)
  from r1 have t: "truthy ok" by (cases "truthy ok") simp_all
  with ok have 1: "truthy (opt_prop response (ascii ''success''))"
    by (simp add: opt_prop_def)
  from t r1 obtain lv where lv: "get_prop response (ascii ''listings'') = Inr lv"
    and r2: "(if \<not> truthy lv then Inr None
         else
          (case lv of
             Arr listings \<Rightarrow>
               bind_e (filter_e (prop_is (ascii ''status'') (ascii ''active'')) listings) (\<lambda>active.
               bind_e (filter_e (prop_is (ascii ''stock_status'') (ascii ''out_of_stock'')) listings) (\<lambda>out.
               bind_e (reduce_sum fadd (ascii ''revenue'') (Num 0) listings) (\<lambda>revenue.
               bind_e (reduce_sum fadd (ascii ''profit'') (Num 0) listings) (\<lambda>profit.
               Inr (Some \<lparr>activeListings = length active, totalRevenue = revenue,
                          totalProfit = profit, outOfStock = length out\<rparr>)))))
           | _ \<Rightarrow> Inl TypeError)) = Inr (Some s)"
    by simp (erule bind_e_InrE)
  from r2 have tl: "truthy lv" by (cases "truthy lv") simp_all
  with r2 obtain ls where ls: "lv = Arr ls"
    by (cases lv) simp_all
  have e: "ls = returned_listings response"
    using ls lv by (simp add: returned_listings_def)
  from lv ls e have 2: "opt_prop response (ascii ''listings'') = Arr (returned_listings response)"
    by (simp add: opt_prop_def)
  from r2 ls tl e obtain active where
    "filter_e (prop_is (ascii ''status'') (ascii ''active'')) (returned_listings response) = Inr active"
    by simp (erule bind_e_InrE)
  then have 3: "\<forall>l\<in>set (returned_listings response). \<not> nullish l"
    by (rule filter_e_not_nullish)
  from 1 2 3 show ?thesis by blast
qed

text \<open>
  C8. For a response whose listings carry numbers (or nothing: \<^verbatim>\<open>null\<close>, \<^verbatim>\<open>undefined\<close>, no
  such field) as \<^verbatim>\<open>revenue\<close> and \<^verbatim>\<open>profit\<close>, \<^verbatim>\<open>loadDashboardData\<close> sets the stats exactly when
  \<^verbatim>\<open>success\<close> is truthy, \<^verbatim>\<open>listings\<close> is an array and no listing is \<^verbatim>\<open>null\<close> or \<^verbatim>\<open>undefined\<close>.
  In the stats it sets, \<open>activeListings\<close> is the number of listings whose status is
  \<^verbatim>\<open>'active'\<close>, \<open>outOfStock\<close> the number whose stock status is \<^verbatim>\<open>'out_of_stock'\<close>, and
  \<open>totalRevenue\<close> and \<open>totalProfit\<close> are the sums of the two fields over all listings, added
  to 0 one after the other in the order of the listings, a missing field counting 0.
\<close>

theorem C8_loadDashboardData:
  assumes "\<forall>l \<in> set (returned_listings response).
             number_or_missing (opt_prop l (ascii ''revenue'')) \<and>
             number_or_missing (opt_prop l (ascii ''profit''))"
  shows "loadDashboardData fadd response = Inr (Some s) \<longleftrightarrow>
         truthy (opt_prop response (ascii ''success'')) \<and>
         (\<exists>ls. opt_prop response (ascii ''listings'') = Arr ls) \<and>
         (\<forall>l \<in> set (returned_listings response). \<not> nullish l) \<and>
         activeListings s =
           length (filter (\<lambda>l. opt_prop l (ascii ''status'') = Str (ascii ''active''))
             (returned_listings response)) \<and>
         outOfStock s =
           length (filter (\<lambda>l. opt_prop l (ascii ''stock_status'') = Str (ascii ''out_of_stock''))
             (returned_listings response)) \<and>
         totalRevenue s =
           Num (foldl fadd 0 (map (\<lambda>l. number_or_zero (opt_prop l (ascii ''revenue'')))
             (returned_listings response))) \<and>
         totalProfit s =
           Num (foldl fadd 0 (map (\<lambda>l. number_or_zero (opt_prop l (ascii ''profit'')))
             (returned_listings response)))"
  (is "?set \<longleftrightarrow> ?ok \<and> ?arr \<and> ?nn \<and> ?a \<and> ?o \<and> ?r \<and> ?p")
proof -
  have sets: "loadDashboardData fadd response = Inr (Some
     \<lparr>activeListings =
        length (filter (\<lambda>l. opt_prop l (ascii ''status'') = Str (ascii ''active''))
          (returned_listings response)),
      totalRevenue =
        Num (foldl fadd 0 (map (\<lambda>l. number_or_zero (opt_prop l (ascii ''revenue'')))
          (returned_listings response))),
      totalProfit =
        Num (foldl fadd 0 (map (\<lambda>l. number_or_zero (opt_prop l (ascii ''profit'')))
          (returned_listings response))),
      outOfStock =
        length (filter (\<lambda>l. opt_prop l (ascii ''stock_status'') = Str (ascii ''out_of_stock''))
          (returned_listings response))\<rparr>)"
    if ok: ?ok and arr: ?arr and nn: ?nn
  proof -
    from ok have "\<not> nullish response" by (rule truthy_opt_prop)
    then have "get_prop response (ascii ''listings'') = Inr (opt_prop response (ascii ''listings''))"
      by (rule get_prop_opt)
    with arr have l: "opt_prop response (ascii ''listings'') = Arr (returned_listings response)"
      by (auto simp: returned_listings_def)
    from assms show ?thesis
      by (intro loadDashboardData_sets [OF ok l nn]) blast+
  qed
  have 1: "?ok \<and> ?arr \<and> ?nn \<and> ?a \<and> ?o \<and> ?r \<and> ?p" if s: ?set
  proof -
    from loadDashboardData_set_only [OF s] have ok: ?ok and arr: ?arr and nn: ?nn by auto
    from sets [OF ok arr nn] s have ?a ?o ?r ?p by simp_all
    with ok arr nn show ?thesis by blast
  qed
  have 2: ?set if ok: ?ok and arr: ?arr and nn: ?nn and a: ?a and o: ?o and r: ?r and p: ?p
    using sets [OF ok arr nn] a o r p by (cases s) simp
  from 1 2 show ?thesis by blast
qed

theorem C8_loadDashboardData_witness:
  "loadDashboardData (+)
     (Obj [(ascii ''success'', Bool True),
           (ascii ''listings'', Arr [
              Obj [(ascii ''status'', Str (ascii ''active'')), (ascii ''stock_status'', Str (ascii ''in_stock'')),
                   (ascii ''revenue'', Num 1200), (ascii ''profit'', Num 300)],
              Obj [(ascii ''status'', Str (ascii ''paused'')), (ascii ''stock_status'', Str (ascii ''out_of_stock'')),
                   (ascii ''profit'', Num 50)],
              Obj [(ascii ''status'', Str (ascii ''active'')), (ascii ''stock_status'', Str (ascii ''out_of_stock'')),
                   (ascii ''revenue'', Num 800), (ascii ''profit'', Null)]])]) =
   Inr (Some \<lparr>activeListings = 2, totalRevenue = Num 2000, totalProfit = Num 350, outOfStock = 2\<rparr>)"
  (is "loadDashboardData _ ?r = Inr (Some ?s)")
proof -
  have ls: "returned_listings ?r = [
              Obj [(ascii ''status'', Str (ascii ''active'')), (ascii ''stock_status'', Str (ascii ''in_stock'')),
                   (ascii ''revenue'', Num 1200), (ascii ''profit'', Num 300)],
              Obj [(ascii ''status'', Str (ascii ''paused'')), (ascii ''stock_status'', Str (ascii ''out_of_stock'')),
                   (ascii ''profit'', Num 50)],
              Obj [(ascii ''status'', Str (ascii ''active'')), (ascii ''stock_status'', Str (ascii ''out_of_stock'')),
                   (ascii ''revenue'', Num 800), (ascii ''profit'', Null)]]"
    by (simp add: returned_listings_def)
  have h: "\<forall>l \<in> set (returned_listings ?r).
             number_or_missing (opt_prop l (ascii ''revenue'')) \<and>
             number_or_missing (opt_prop l (ascii ''profit''))"
    unfolding ls by (simp add: opt_prop_def)
  from C8_loadDashboardData [OF h, of "(+)" ?s] show ?thesis
    unfolding ls by (simp add: opt_prop_def nullish_def)
qed

text \<open>
  C8, as stated for every response: a listing whose \<^verbatim>\<open>revenue\<close> is the string \<^verbatim>\<open>"5"\<close>,
  followed by one whose \<^verbatim>\<open>revenue\<close> is 20. The stats are set, and \<open>totalRevenue\<close> is the
  string \<^verbatim>\<open>"0520"\<close>, whatever the addition of numbers is: \<^verbatim>\<open>0 + "5"\<close> and \<^verbatim>\<open>"05" + 20\<close>
  concatenate.
\<close>

theorem C8_counterexample:
  "\<forall>fadd. \<exists>s. loadDashboardData fadd
     (Obj [(ascii ''success'', Bool True),
           (ascii ''listings'', Arr [
              Obj [(ascii ''status'', Str (ascii ''active'')), (ascii ''revenue'', Str (ascii ''5''))],
              Obj [(ascii ''status'', Str (ascii ''active'')), (ascii ''revenue'', Num 20)]])]) =
       Inr (Some s) \<and>
     totalRevenue s = Str (ascii ''0520'')"
proof -
  have n: "Number_toString 0 = ascii ''0''" "Number_toString 20 = ascii ''20''"
    by (simp_all add: Number_toString_def ascii_def)
  show ?thesis
    by (simp add: loadDashboardData_def prop_is_def js_add_def js_or_def n bind_e_def ascii_def)
qed

subsection \<open>Adding blacklist entries\<close>

lemma trim_snoc_CR: "trim (s @ [CR]) = trim s"
proof (cases "\<forall>c\<in>set s. is_space c")
  case True
  moreover have "is_space CR" by (simp add: is_space_def)
  ultimately have a: "dropWhile is_space (s @ [CR]) = []" and b: "dropWhile is_space s = []"
    by (induction s) auto
  show ?thesis unfolding trim_def a b ..
next
  case False
  then have a: "dropWhile is_space (s @ [CR]) = dropWhile is_space s @ [CR]"
    by (auto simp: dropWhile_append1)
  have "is_space CR" by (simp add: is_space_def)
  then show ?thesis unfolding trim_def a by simp
qed

lemma split_by_nonempty: "split_by sep s \<noteq> []"
  by (induction sep s rule: split_by.induct) (auto split: list.splits)

lemma pieces_nonempty: "pieces s \<noteq> []"
  by (induction s) (auto split: list.splits)

lemma split_keywords_pieces:
  "list_all2 (\<lambda>a b. b = a \<or> b = a @ [CR]) (split_by sep_keywords s) (pieces s)"
proof (induction sep_keywords s rule: split_by.induct)
  case 1
  show ?case by simp
next
  case (2 c cs)
  show ?case
  proof (cases "sep_keywords (c # cs) = 0")
    case True
    then have nk: "\<not> keyword_separator c"
      by (cases cs) (auto simp: sep_keywords_def keyword_separator_def split: if_splits)
    from 2(1) [OF True] True nk show ?thesis
      using split_by_nonempty [of sep_keywords cs] pieces_nonempty [of cs]
      by (cases "split_by sep_keywords cs"; cases "pieces cs") auto
  next
    case False
    note ih = 2(2) [OF False]
    show ?thesis
    proof (cases "c = CR")
      case True
      with False obtain cs' where cs: "cs = LF # cs'"
        by (cases cs) (auto simp: sep_keywords_def split: if_splits)
      with True have s: "sep_keywords (c # cs) = 2" by (simp add: sep_keywords_def)
      with ih cs True show ?thesis
        by (simp add: keyword_separator_def)
    next
      case nCR: False
      with False have s: "sep_keywords (c # cs) = 1" and k: "keyword_separator c"
        by (cases cs; auto simp: sep_keywords_def keyword_separator_def split: if_splits)+
      with ih show ?thesis by simp
    qed
  qed
qed

lemma map_trim_split_keywords: "map trim (split_by sep_keywords s) = map trim (pieces s)"
proof -
  have "list_all2 (\<lambda>a b. b = a \<or> b = a @ [CR]) xs ys \<Longrightarrow> map trim xs = map trim ys" for xs ys
    by (induction rule: list_all2_induct) (auto simp: trim_snoc_CR)
  from this [OF split_keywords_pieces] show ?thesis .
qed

lemma create_each_eq:
  "create_each api rs = (take (Suc (length (takeWhile api rs))) rs, list_all api rs)"
  by (induction rs) (auto split: prod.splits)

lemma issued_handleAddEntries:
  "issued (handleAddEntries api kind vals) =
     (let reqs = map (make_request kind) (filter (\<lambda>v. v \<noteq> []) (map trim vals))
      in take (Suc (length (takeWhile api reqs))) reqs)"
  by (auto simp: handleAddEntries_def Let_def create_each_eq split: prod.splits bool.splits)

lemma toasts_handleAddEntries_empty:
  "filter (\<lambda>v. v \<noteq> []) (map trim vals) = [] \<Longrightarrow>
   toasts (handleAddEntries api kind vals) = [Toast t_error msg_enter_content True]"
  by (simp add: handleAddEntries_def)

text \<open>
  C9 (amended). The keyword box is cut at every newline, comma and ideographic comma, each
  piece trimmed and the empty ones dropped; the create requests go out one per remaining
  value, in order, with type \<^verbatim>\<open>keyword\<close>, severity \<^verbatim>\<open>medium\<close> and the keyword reason, up to
  and including the first request that fails - all of them when none fails. An ASIN or a
  brand gives one request of severity \<^verbatim>\<open>high\<close> (the ASIN uppercased, both trimmed) with the
  reason of its type. When nothing remains after trimming, no request is issued and the
  error toast is shown.
\<close>

theorem C9_handleAddEntries:
  "issued (handleAddKeywords api newKeyword) =
     (let reqs = map keyword_request (filter (\<lambda>v. v \<noteq> []) (map trim (pieces newKeyword)))
      in take (Suc (length (takeWhile api reqs))) reqs) \<and>
   (list_all api (map keyword_request (filter (\<lambda>v. v \<noteq> []) (map trim (pieces newKeyword)))) \<longrightarrow>
      issued (handleAddKeywords api newKeyword) =
        map keyword_request (filter (\<lambda>v. v \<noteq> []) (map trim (pieces newKeyword)))) \<and>
   (filter (\<lambda>v. v \<noteq> []) (map trim (pieces newKeyword)) = [] \<longrightarrow>
      issued (handleAddKeywords api newKeyword) = [] \<and>
      toasts (handleAddKeywords api newKeyword) = [Toast t_error msg_enter_content True]) \<and>
   issued (handleAddAsin toUpperCase api newAsin) =
     (if trim (toUpperCase newAsin) = [] then []
      else [\<lparr>req_type = ascii ''asin'', req_value = trim (toUpperCase newAsin),
             req_reason = defaultReasons KAsin, req_severity = ascii ''high''\<rparr>]) \<and>
   issued (handleAddBrand api newBrand) =
     (if trim newBrand = [] then []
      else [\<lparr>req_type = ascii ''brand'', req_value = trim newBrand,
             req_reason = defaultReasons KBrand, req_severity = ascii ''high''\<rparr>]) \<and>
   (trim (toUpperCase newAsin) = [] \<longrightarrow>
      toasts (handleAddAsin toUpperCase api newAsin) = [Toast t_error msg_enter_content True]) \<and>
   (trim newBrand = [] \<longrightarrow>
      toasts (handleAddBrand api newBrand) = [Toast t_error msg_enter_content True])"
proof -
  let ?vals = "filter (\<lambda>v. v \<noteq> []) (map trim (pieces newKeyword))"
  have kr: "make_request KKeyword = keyword_request"
    by (rule ext) (simp add: make_request_def keyword_request_def)
  have 1: "issued (handleAddKeywords api newKeyword) =
     (let reqs = map keyword_request ?vals in take (Suc (length (takeWhile api reqs))) reqs)"
    by (simp add: handleAddKeywords_def issued_handleAddEntries map_trim_split_keywords kr)
  have 2: "issued (handleAddKeywords api newKeyword) = map keyword_request ?vals"
    if "list_all api (map keyword_request ?vals)"
  proof -
    from that have tw: "takeWhile api (map keyword_request ?vals) = map keyword_request ?vals"
      unfolding takeWhile_eq_all_conv list_all_iff by blast
    show ?thesis unfolding 1 Let_def tw by simp
  qed
  have 3: "issued (handleAddKeywords api newKeyword) = [] \<and>
      toasts (handleAddKeywords api newKeyword) = [Toast t_error msg_enter_content True]"
    if "?vals = []"
    using that 1 by (simp add: handleAddKeywords_def toasts_handleAddEntries_empty map_trim_split_keywords)
  have 4: "issued (handleAddAsin toUpperCase api newAsin) =
     (if trim (toUpperCase newAsin) = [] then []
      else [\<lparr>req_type = ascii ''asin'', req_value = trim (toUpperCase newAsin),
             req_reason = defaultReasons KAsin, req_severity = ascii ''high''\<rparr>])"
    by (simp add: handleAddAsin_def issued_handleAddEntries make_request_def)
  have 5: "issued (handleAddBrand api newBrand) =
     (if trim newBrand = [] then []
      else [\<lparr>req_type = ascii ''brand'', req_value = trim newBrand,
             req_reason = defaultReasons KBrand, req_severity = ascii ''high''\<rparr>])"
    by (simp add: handleAddBrand_def issued_handleAddEntries make_request_def)
  have 6: "toasts (handleAddAsin toUpperCase api newAsin) = [Toast t_error msg_enter_content True]"
    if "trim (toUpperCase newAsin) = []"
    using that by (simp add: handleAddAsin_def toasts_handleAddEntries_empty)
  have 7: "toasts (handleAddBrand api newBrand) = [Toast t_error msg_enter_content True]"
    if "trim newBrand = []"
    using that by (simp add: handleAddBrand_def toasts_handleAddEntries_empty)
  from 1 2 3 4 5 6 7 show ?thesis by blast
qed

theorem C9_handleAddEntries_witness:
  "issued (handleAddKeywords (\<lambda>r. True) (ascii ''a, ,b'')) =
     [keyword_request (ascii ''a''), keyword_request (ascii ''b'')] \<and>
   issued (handleAddKeywords (\<lambda>r. True) (ascii '' , '')) = [] \<and>
   toasts (handleAddKeywords (\<lambda>r. True) (ascii '' , '')) = [Toast t_error msg_enter_content True] \<and>
   issued (handleAddAsin (map (\<lambda>c. if 97 \<le> c \<and> c \<le> 122 then c - 32 else c)) (\<lambda>r. True)
       (ascii ''b00abc1234 '')) =
     [\<lparr>req_type = ascii ''asin'', req_value = ascii ''B00ABC1234'',
       req_reason = defaultReasons KAsin, req_severity = ascii ''high''\<rparr>] \<and>
   toasts (handleAddBrand (\<lambda>r. True) (ascii ''  '')) = [Toast t_error msg_enter_content True]"
proof -
  have k: "filter (\<lambda>v. v \<noteq> []) (map trim (pieces (ascii ''a, ,b''))) = [ascii ''a'', ascii ''b'']"
    by (simp add: ascii_def keyword_separator_def trim_def is_space_def)
  have e: "filter (\<lambda>v. v \<noteq> []) (map trim (pieces (ascii '' , ''))) = []"
    by (simp add: ascii_def keyword_separator_def trim_def is_space_def)
  have a: "trim (map (\<lambda>c. if 97 \<le> c \<and> c \<le> 122 then c - 32 else c) (ascii ''b00abc1234 '')) = ascii ''B00ABC1234''"
    by (simp add: ascii_def trim_def is_space_def)
  have b: "trim (ascii ''  '') = []"
    by (simp add: ascii_def trim_def is_space_def)
  show ?thesis
    using C9_handleAddEntries [of "\<lambda>r. True" "ascii ''a, ,b''"
        "map (\<lambda>c. if 97 \<le> c \<and> c \<le> 122 then c - 32 else c)" "ascii ''b00abc1234 ''" "ascii ''  ''"]
      C9_handleAddEntries [of "\<lambda>r. True" "ascii '' , ''" id "[]" "[]"]
    unfolding k e a b by (simp add: list_all_iff)
qed

text \<open>
  The claim as first stated fails when a request is refused: of the three keywords
  \<^verbatim>\<open>a,b,c\<close>, with the request for \<^verbatim>\<open>b\<close> refused, only two requests go out.
\<close>

theorem C9_counterexample:
  "filter (\<lambda>v. v \<noteq> []) (map trim (split_by sep_keywords (ascii ''a,b,c''))) =
     [ascii ''a'', ascii ''b'', ascii ''c''] \<and>
   issued (handleAddKeywords (\<lambda>r. req_value r \<noteq> ascii ''b'') (ascii ''a,b,c'')) =
     [make_request KKeyword (ascii ''a''), make_request KKeyword (ascii ''b'')]"
proof -
  have k: "filter (\<lambda>v. v \<noteq> []) (map trim (split_by sep_keywords (ascii ''a,b,c''))) =
     [ascii ''a'', ascii ''b'', ascii ''c'']"
    by (simp add: ascii_def sep_keywords_def trim_def is_space_def)
  show ?thesis
    unfolding handleAddKeywords_def issued_handleAddEntries Let_def k
    by (simp add: k make_request_def)
qed

subsection \<open>Export\<close>







subsection \<open>Import\<close>










text \<open>What \<^verbatim>\<open>parseImportedData\<close> does with each outcome of \<^verbatim>\<open>JSON.parse\<close>.\<close>

lemma parseImportedData_json:
  assumes "trim text \<noteq> []"
  shows "JSON_parse (trim text) = Inr (Arr xs) \<Longrightarrow> parseImportedData text = Inr xs"
    and "JSON_parse (trim text) = Inr (Obj kvs) \<Longrightarrow> parseImportedData text = Inr [Obj kvs]"
    and "JSON_parse (trim text) = Inr Null \<Longrightarrow> parseImportedData text = Inr [Null]"
    and "JSON_parse (trim text) = Inl e \<or> JSON_parse (trim text) = Inr (Str s) \<or>
         JSON_parse (trim text) = Inr (Num q) \<or> JSON_parse (trim text) = Inr (Bool b) \<Longrightarrow>
         parseImportedData text = parse_as_csv (trim text)"
  using assms by (auto simp: parseImportedData_def parse_as_json_def)

subsection \<open>API client\<close>






lemma apiRequest_not_json:
  "resp_json response = Inl e \<Longrightarrow> apiRequest response = Inl e"
  by (simp add: apiRequest_def bind_e_def)

lemma apiRequest_null_body:
  "resp_json response = Inr Null \<Longrightarrow> \<not> ok response \<Longrightarrow> apiRequest response = Inl TypeError"
  by (simp add: apiRequest_def bind_e_def)

subsection \<open>Creating listings\<close>

lemma bind_e_Inr [simp]: "bind_e (Inr x) f = f x"
  by (simp add: bind_e_def)

lemma bind_e_Inl [simp]: "bind_e (Inl e) f = Inl e"
  by (simp add: bind_e_def)

lemma validateForm_empty_iff:
  "validateForm f = [] \<longleftrightarrow>
     trim (form_asin f) \<noteq> [] \<and> trim (form_title f) \<noteq> [] \<and> trim (form_listing_price f) \<noteq> []"
  by (simp add: validateForm_def)

lemma validateForm_keys:
  "(ascii ''asin'', msg_asin_required) \<in> set (validateForm f) \<longleftrightarrow> trim (form_asin f) = []"
  "(ascii ''title'', msg_title_required) \<in> set (validateForm f) \<longleftrightarrow> trim (form_title f) = []"
  "(ascii ''listing_price'', msg_price_required) \<in> set (validateForm f) \<longleftrightarrow>
     trim (form_listing_price f) = []"
  by (auto simp: validateForm_def)

lemma trimmed_prop_Obj:
  "trimmed_prop (Obj kvs) k = opt_trim (opt_prop (Obj kvs) k)"
  by (simp add: trimmed_prop_def opt_prop_def split: option.splits)

lemma prop_or_Obj:
  "prop_or (Obj kvs) k k2 = Inr (js_coalesce (opt_prop (Obj kvs) k) (opt_prop (Obj kvs) k2))"
  by (simp add: prop_or_def opt_prop_def js_coalesce_def split: option.splits)

lemma opt_trim_truthy: "opt_trim v = Inr x \<Longrightarrow> truthy x \<longleftrightarrow> filled v"
  by (cases v) auto

lemma opt_trim_text: "text_or_missing v \<Longrightarrow> \<exists>x. opt_trim v = Inr x"
  by (cases v) auto

lemma createPayload_Some:
  assumes "createPayload N record = Inr (Some p)"
  shows "filled (opt_prop record (ascii ''asin'')) \<and> filled (opt_prop record (ascii ''title'')) \<and>
         (truthy (record_price record) \<or> record_price record = Num 0)"
proof -
  from assms obtain a t lp where a: "trimmed_prop record (ascii ''asin'') = Inr a"
    and t: "trimmed_prop record (ascii ''title'') = Inr t"
    and lp: "prop_or record (ascii ''listing_price'') (ascii ''listingPrice'') = Inr lp"
    and r: "(if \<not> truthy a \<or> \<not> truthy t \<or> (\<not> truthy lp \<and> lp \<noteq> Num 0)
       then Inr None else payload_object N record a t lp) = Inr (Some p)"
    unfolding createPayload_def by (elim bind_e_InrE)
  from r have c: "truthy a" "truthy t" "truthy lp \<or> lp = Num 0"
    by (auto split: if_splits)
  from a obtain av where av: "get_prop record (ascii ''asin'') = Inr av" "opt_trim av = Inr a"
    unfolding trimmed_prop_def by (rule bind_e_InrE)
  from t obtain tv where tv: "get_prop record (ascii ''title'') = Inr tv" "opt_trim tv = Inr t"
    unfolding trimmed_prop_def by (rule bind_e_InrE)
  have 1: "filled (opt_prop record (ascii ''asin''))"
    using av c(1) opt_trim_truthy [OF av(2)] by (simp add: opt_prop_def)
  have 2: "filled (opt_prop record (ascii ''title''))"
    using tv c(2) opt_trim_truthy [OF tv(2)] by (simp add: opt_prop_def)
  from lp have "lp = record_price record"
    unfolding prop_or_def record_price_def
    by (auto elim!: bind_e_InrE simp: opt_prop_def js_coalesce_def split: if_splits)
  with c(3) 1 2 show ?thesis by simp
qed

lemma createPayload_None:
  assumes "text_or_missing (opt_prop (Obj kvs) (ascii ''asin''))"
    and "text_or_missing (opt_prop (Obj kvs) (ascii ''title''))"
    and "\<not> filled (opt_prop (Obj kvs) (ascii ''asin'')) \<or>
         \<not> filled (opt_prop (Obj kvs) (ascii ''title'')) \<or>
         nullish (record_price (Obj kvs))"
  shows "createPayload N (Obj kvs) = Inr None"
proof -
  from opt_trim_text [OF assms(1)] obtain a where a: "opt_trim (opt_prop (Obj kvs) (ascii ''asin'')) = Inr a"
    by blast
  from opt_trim_text [OF assms(2)] obtain t where t: "opt_trim (opt_prop (Obj kvs) (ascii ''title'')) = Inr t"
    by blast
  have "\<not> truthy a \<or> \<not> truthy t \<or>
        (\<not> truthy (record_price (Obj kvs)) \<and> record_price (Obj kvs) \<noteq> Num 0)"
    using assms(3) opt_trim_truthy [OF a] opt_trim_truthy [OF t]
    by (auto simp: nullish_def)
  then show ?thesis
    unfolding createPayload_def trimmed_prop_Obj prop_or_Obj a t
    by (simp add: record_price_def)
qed

lemma createPayload_zero:
  assumes "filled (opt_prop (Obj kvs) (ascii ''asin''))"
    and "filled (opt_prop (Obj kvs) (ascii ''title''))"
    and "record_price (Obj kvs) = Num 0"
  shows "createPayload N (Obj kvs) \<noteq> Inr None"
proof -
  from assms(1) obtain a where a: "opt_trim (opt_prop (Obj kvs) (ascii ''asin'')) = Inr a" "truthy a"
    by (cases "opt_prop (Obj kvs) (ascii ''asin'')") auto
  from assms(2) obtain t where t: "opt_trim (opt_prop (Obj kvs) (ascii ''title'')) = Inr t" "truthy t"
    by (cases "opt_prop (Obj kvs) (ascii ''title'')") auto
  have "createPayload N (Obj kvs) = payload_object N (Obj kvs) a t (Num 0)"
    unfolding createPayload_def trimmed_prop_Obj prop_or_Obj a t
    using assms(3) a(2) t(2) by (simp add: record_price_def)
  moreover have "payload_object N (Obj kvs) a t (Num 0) \<noteq> Inr None"
    unfolding payload_object_def
    by (auto elim!: bind_e_InrE)
  ultimately show ?thesis by simp
qed

lemma handleCreateListing_errors:
  "validateForm f \<noteq> [] \<Longrightarrow> handleCreateListing N f = FormErrors (validateForm f)"
  by (simp add: handleCreateListing_def)

lemma handleCreateListing_sends:
  "handleCreateListing N f = CreateListing p \<Longrightarrow> validateForm f = []"
  by (auto simp: handleCreateListing_def Let_def split: if_splits)

lemma import_requests_subset:
  assumes "parseImportedData text = Inr records" and "q \<in> set (import_requests N text)"
  shows "\<exists>record \<in> set records. createPayload N record = Inr (Some q)"
proof (cases "map_e (createPayload N) records")
  case (Inl e)
  with assms show ?thesis by (simp add: import_requests_def)
next
  case (Inr ps)
  with assms have "Some q \<in> set ps"
    by (auto simp: import_requests_def split: option.splits)
  then obtain i where i: "i < length ps" "ps ! i = Some q"
    by (auto simp: in_set_conv_nth)
  from map_e_Inr [OF Inr] i have "records ! i \<in> set records"
    "createPayload N (records ! i) = Inr (Some q)"
    by (auto simp: list_all2_conv_all_nth)
  then show ?thesis by blast
qed

text \<open>
  C4 (amended). A create request is issued only when ASIN, title and listing price are all
  present. In the dialog, \<^verbatim>\<open>handleCreateListing\<close> sends nothing and records the field
  errors whenever the ASIN, the title or the listing price of the form is empty or white
  space. On the import path, a payload (and with it a create request) exists only for a
  record whose \<^verbatim>\<open>asin\<close> and \<^verbatim>\<open>title\<close> are non-empty after trimming and whose listing price -
  \<^verbatim>\<open>listing_price\<close>, or \<^verbatim>\<open>listingPrice\<close> when that is missing - is truthy or the number 0;
  \<^verbatim>\<open>createPayload\<close> returns \<^verbatim>\<open>null\<close> for a record whose \<^verbatim>\<open>asin\<close> or \<^verbatim>\<open>title\<close> is missing or
  empty after trimming (both being texts when present), or that has neither
  \<^verbatim>\<open>listing_price\<close> nor \<^verbatim>\<open>listingPrice\<close>; and it does not return \<^verbatim>\<open>null\<close> when ASIN and title
  are there and the listing price is the number 0.
\<close>

theorem C4_create_requires_fields:
  "(trim (form_asin f) = [] \<or> trim (form_title f) = [] \<or> trim (form_listing_price f) = [] \<longrightarrow>
      handleCreateListing N f = FormErrors (validateForm f) \<and> validateForm f \<noteq> []) \<and>
   (trim (form_asin f) = [] \<longrightarrow> (ascii ''asin'', msg_asin_required) \<in> set (validateForm f)) \<and>
   (trim (form_title f) = [] \<longrightarrow> (ascii ''title'', msg_title_required) \<in> set (validateForm f)) \<and>
   (trim (form_listing_price f) = [] \<longrightarrow>
      (ascii ''listing_price'', msg_price_required) \<in> set (validateForm f)) \<and>
   (handleCreateListing N f = CreateListing p \<longrightarrow>
      trim (form_asin f) \<noteq> [] \<and> trim (form_title f) \<noteq> [] \<and> trim (form_listing_price f) \<noteq> []) \<and>
   (createPayload N record = Inr (Some q) \<longrightarrow>
      filled (opt_prop record (ascii ''asin'')) \<and> filled (opt_prop record (ascii ''title'')) \<and>
      (truthy (record_price record) \<or> record_price record = Num 0)) \<and>
   (text_or_missing (opt_prop (Obj kvs) (ascii ''asin'')) \<and>
    text_or_missing (opt_prop (Obj kvs) (ascii ''title'')) \<and>
    (\<not> filled (opt_prop (Obj kvs) (ascii ''asin'')) \<or>
     \<not> filled (opt_prop (Obj kvs) (ascii ''title'')) \<or>
     nullish (record_price (Obj kvs))) \<longrightarrow>
      createPayload N (Obj kvs) = Inr None) \<and>
   (filled (opt_prop (Obj kvs) (ascii ''asin'')) \<and> filled (opt_prop (Obj kvs) (ascii ''title'')) \<and>
    record_price (Obj kvs) = Num 0 \<longrightarrow>
      createPayload N (Obj kvs) \<noteq> Inr None) \<and>
   (parseImportedData text = Inr records \<and> q' \<in> set (import_requests N text) \<longrightarrow>
      (\<exists>record \<in> set records. createPayload N record = Inr (Some q')))"
proof -
  have 1: "handleCreateListing N f = FormErrors (validateForm f) \<and> validateForm f \<noteq> []"
    if "trim (form_asin f) = [] \<or> trim (form_title f) = [] \<or> trim (form_listing_price f) = []"
    using that handleCreateListing_errors [of f N] validateForm_empty_iff [of f] by blast
  have 2: "trim (form_asin f) \<noteq> [] \<and> trim (form_title f) \<noteq> [] \<and> trim (form_listing_price f) \<noteq> []"
    if "handleCreateListing N f = CreateListing p"
    using handleCreateListing_sends [OF that] validateForm_empty_iff [of f] by blast
  show ?thesis
    using 1 2 validateForm_keys [of f] createPayload_Some [of N "record" q]
      createPayload_None [of kvs N] createPayload_zero [of kvs N]
      import_requests_subset [of "text" records q' N]
    by blast
qed

theorem C4_create_requires_fields_witness:
  "handleCreateListing (\<lambda>s. NaN)
     \<lparr>form_asin = ascii ''  '', form_jp_asin = [], form_us_asin = [], form_title = ascii ''Lamp'',
      form_listing_price = ascii ''9800'', form_jp_price = [], form_us_price = [],
      form_category = [], form_manufacturer = [], form_source_url = [],
      form_minimum_profit_threshold = ascii ''3000''\<rparr> =
     FormErrors [(ascii ''asin'', msg_asin_required)] \<and>
   createPayload (\<lambda>s. NaN)
     (Obj [(ascii ''asin'', Str (ascii ''B000000001'')), (ascii ''title'', Str (ascii '' '')),
           (ascii ''listing_price'', Str (ascii ''9800''))]) = Inr None \<and>
   createPayload (\<lambda>s. NaN)
     (Obj [(ascii ''asin'', Str (ascii ''B000000001'')), (ascii ''title'', Str (ascii ''Lamp''))]) =
     Inr None \<and>
   createPayload (\<lambda>s. NaN)
     (Obj [(ascii ''asin'', Str (ascii ''B000000001'')), (ascii ''title'', Str (ascii ''Lamp'')),
           (ascii ''listing_price'', Num 0)]) \<noteq> Inr None"
proof -
  let ?f = "\<lparr>form_asin = ascii ''  '', form_jp_asin = [], form_us_asin = [], form_title = ascii ''Lamp'',
      form_listing_price = ascii ''9800'', form_jp_price = [], form_us_price = [],
      form_category = [], form_manufacturer = [], form_source_url = [],
      form_minimum_profit_threshold = ascii ''3000''\<rparr>"
  let ?k1 = "[(ascii ''asin'', Str (ascii ''B000000001'')), (ascii ''title'', Str (ascii '' '')),
           (ascii ''listing_price'', Str (ascii ''9800''))]"
  let ?k2 = "[(ascii ''asin'', Str (ascii ''B000000001'')), (ascii ''title'', Str (ascii ''Lamp''))]"
  let ?k3 = "[(ascii ''asin'', Str (ascii ''B000000001'')), (ascii ''title'', Str (ascii ''Lamp'')),
           (ascii ''listing_price'', Num 0)]"
  have t: "trim (ascii ''  '') = []" "trim (ascii '' '') = []" "trim (ascii ''Lamp'') \<noteq> []"
    "trim (ascii ''9800'') \<noteq> []" "trim (ascii ''B000000001'') \<noteq> []"
    by (simp_all add: trim_def is_space_def ascii_def)
  have v: "validateForm ?f = [(ascii ''asin'', msg_asin_required)]"
    by (simp add: validateForm_def t)
  from C4_create_requires_fields [of ?f "\<lambda>s. NaN" _ _ _ ?k1]
    C4_create_requires_fields [of ?f "\<lambda>s. NaN" _ _ _ ?k2]
    C4_create_requires_fields [of ?f "\<lambda>s. NaN" _ _ _ ?k3]
  show ?thesis
    by (simp add: opt_prop_def record_price_def js_coalesce_def nullish_def t v)
qed

text \<open>
  The claim as first stated fails on a record that has no \<^verbatim>\<open>listing_price\<close> but the
  \<^verbatim>\<open>listingPrice\<close> of the other spelling: \<^verbatim>\<open>createPayload\<close> does not return \<^verbatim>\<open>null\<close>, and a
  create request is sent.
\<close>

theorem C4_counterexample:
  "get_prop (Obj [(ascii ''asin'', Str (ascii ''B000000001'')), (ascii ''title'', Str (ascii ''Lamp'')),
                  (ascii ''listingPrice'', Num 100)]) (ascii ''listing_price'') = Inr Undefined \<and>
   (\<forall>N. createPayload N
     (Obj [(ascii ''asin'', Str (ascii ''B000000001'')), (ascii ''title'', Str (ascii ''Lamp'')),
           (ascii ''listingPrice'', Num 100)]) =
     Inr (Some
       \<lparr>p_asin = Str (ascii ''B000000001''), p_jp_asin = Str (ascii ''B000000001''),
        p_us_asin = Undefined, p_title = Str (ascii ''Lamp''), p_listing_price = Num 100,
        p_jp_price = Num 0, p_us_price = Num 0, p_category = Undefined,
        p_manufacturer = Undefined, p_source_url = Undefined,
        p_minimum_profit_threshold = Num 3000, p_validate = True\<rparr>))"
proof -
  have t: "trim (ascii ''Lamp'') = ascii ''Lamp''" "trim (ascii ''B000000001'') = ascii ''B000000001''"
    by (simp_all add: trim_def is_space_def ascii_def)
  show ?thesis
    by (simp add: createPayload_def payload_object_def trimmed_prop_def prop_or_def nullish_def
        js_or_def Number_js_def t)
qed

subsection \<open>Import of an exported file\<close>

lemma dq_not_space: "\<not> is_space dq" and comma_not_space: "\<not> is_space comma"
  by (simp_all add: is_space_def)

lemma lookahead_comma [simp]: "lookahead (comma # r)"
  by (simp add: lookahead_def comma_not_space)

lemma lookahead_Nil [simp]: "lookahead []"
  by (simp add: lookahead_def)

lemma lookahead_dq [simp]: "\<not> lookahead (dq # r)"
  by (simp add: lookahead_def dq_not_space)












































end
